theory Spec2Isabelle
  imports Complex_Main "HOL-Library.Multiset" "HOL-Library.Sublist"
    "HOL-Library.Char_ord" "HOL-Library.List_Lexorder"
begin

section \<open>Python values and exceptions\<close>

text \<open>
  The notebooks are Python. An exception that a cell can raise is a value of \<open>error\<close>, and a
  computation that can raise returns \<open>error + 'a\<close> with \<open>Inl\<close> for the exception. The notebooks
  define no exception class of their own and contain no \<^verbatim>\<open>raise\<close>: every exception comes
  from the interpreter or from a library call. A cell that raises is \<open>Inl\<close>; what its
  statements did before the exception is not kept.

  The library calls (pandas, numpy, scikit-learn in a release that still has \<open>Imputer\<close>,
  0.20 or 0.21) are modelled by what the library documents and does for the arguments the
  notebooks pass; the random generator, the estimator and the cross-validation are
  parameters.
\<close>

datatype error = KeyError | TypeError | ValueError | IndexError | NotFittedError

text \<open>
  A float is a real number or NaN: \<open>None\<close> is NaN. Arithmetic on NaN gives NaN and every
  comparison with NaN is false, as in numpy. The infinities of IEEE arithmetic are not
  modelled. Rounding is modelled where it decides what a step does: in the product that
  gives the number of test rows, and in the moments that the scaler tests for zero;
  elsewhere the arithmetic is exact.
\<close>

type_synonym float = "real option"

section \<open>The OCR notebook: \<open>extract_info\<close>\<close>

text \<open>
  The analysis is the decoded JSON answer of the OCR service: nested dicts and lists. A dict
  is an association list from keys to values.
\<close>

datatype json =
    JNull
  | JBool bool
  | JNum real
  | JStr string
  | JArr "json list"
  | JObj "(string \<times> json) list"

text \<open>\<^verbatim>\<open>obj[key]\<close> with a string key: a dict looks the key up, anything else cannot take it.\<close>

fun py_getitem :: "json \<Rightarrow> string \<Rightarrow> error + json" where
  "py_getitem (JObj kvs) k = (case map_of kvs k of None \<Rightarrow> Inl KeyError | Some v \<Rightarrow> Inr v)"
| "py_getitem _ k = Inl TypeError"

text \<open>
  \<^verbatim>\<open>for x in obj\<close>: a list gives its elements, a dict its keys, a string its characters;
  the other values are not iterable.
\<close>

fun py_iter :: "json \<Rightarrow> error + json list" where
  "py_iter (JArr xs) = Inr xs"
| "py_iter (JObj kvs) = Inr (map (\<lambda>kv. JStr (fst kv)) kvs)"
| "py_iter (JStr s) = Inr (map (\<lambda>c. JStr [c]) s)"
| "py_iter _ = Inl TypeError"

text \<open>The list comprehension \<^verbatim>\<open>[region["lines"] for region in ...]\<close>.\<close>

fun lines_of_regions :: "json list \<Rightarrow> error + json list" where
  "lines_of_regions [] = Inr []"
| "lines_of_regions (region # rest) =
     (case py_getitem region ''lines'' of
        Inl e \<Rightarrow> Inl e
      | Inr ls \<Rightarrow> (case lines_of_regions rest of Inl e \<Rightarrow> Inl e | Inr lss \<Rightarrow> Inr (ls # lss)))"

text \<open>The innermost loop appends every word entry to \<open>word_infos\<close>.\<close>

fun append_words :: "json list \<Rightarrow> json list \<Rightarrow> json list" where
  "append_words word_infos [] = word_infos"
| "append_words word_infos (word_info # rest) = append_words (word_infos @ [word_info]) rest"

text \<open>\<^verbatim>\<open>for word_metadata in line: for word_info in word_metadata["words"]: ...\<close>\<close>

fun line_loop :: "json list \<Rightarrow> json list \<Rightarrow> error + json list" where
  "line_loop word_infos [] = Inr word_infos"
| "line_loop word_infos (word_metadata # rest) =
     (case py_getitem word_metadata ''words'' of
        Inl e \<Rightarrow> Inl e
      | Inr ws \<Rightarrow>
          (case py_iter ws of
             Inl e \<Rightarrow> Inl e
           | Inr words \<Rightarrow> line_loop (append_words word_infos words) rest))"

text \<open>\<^verbatim>\<open>for line in line_infos: ...\<close>\<close>

fun region_loop :: "json list \<Rightarrow> json list \<Rightarrow> error + json list" where
  "region_loop word_infos [] = Inr word_infos"
| "region_loop word_infos (line # rest) =
     (case py_iter line of
        Inl e \<Rightarrow> Inl e
      | Inr word_metadatas \<Rightarrow>
          (case line_loop word_infos word_metadatas of
             Inl e \<Rightarrow> Inl e
           | Inr word_infos' \<Rightarrow> region_loop word_infos' rest))"

definition extract_info :: "json \<Rightarrow> error + json list" where
  "extract_info analysis =
     (case py_getitem analysis ''regions'' of
        Inl e \<Rightarrow> Inl e
      | Inr regions \<Rightarrow>
          (case py_iter regions of
             Inl e \<Rightarrow> Inl e
           | Inr rs \<Rightarrow>
               (case lines_of_regions rs of
                  Inl e \<Rightarrow> Inl e
                | Inr line_infos \<Rightarrow> region_loop [] line_infos)))"

text \<open>
  For the statements: the list stored under a key of a dict, when the value there is a list.
\<close>

definition list_at :: "json \<Rightarrow> string \<Rightarrow> json list option" where
  "list_at j k = (case py_getitem j k of Inr (JArr xs) \<Rightarrow> Some xs | _ \<Rightarrow> None)"

section \<open>Data frames and the object store\<close>

text \<open>
  A pandas DataFrame: the column names in order, and the rows in order, each with its index
  label. A row gives the value of every column of the frame; what it says about other
  names is never read. The frame read by \<^verbatim>\<open>read_csv\<close> has the labels 0, 1, 2, ...
  and no step of the notebook creates a label, so the labels of a frame are distinct.
\<close>

record 'c dataframe =
  columns :: "string list"
  rows :: "(nat \<times> (string \<Rightarrow> 'c)) list"

definition index :: "'c dataframe \<Rightarrow> nat list" where
  "index df = map fst (rows df)"

text \<open>
  Python variables hold references. The store gives the frame behind each reference; a
  method called with \<^verbatim>\<open>inplace=True\<close> and an assignment \<^verbatim>\<open>df[c] = ...\<close> replace
  the frame behind the reference they are given, a method that returns a new frame
  allocates a reference.
\<close>

record 'c store =
  objs :: "nat \<Rightarrow> 'c dataframe"
  next_id :: nat

definition alloc :: "'c dataframe \<Rightarrow> 'c store \<Rightarrow> nat \<times> 'c store" where
  "alloc df h = (next_id h, h\<lparr>objs := (objs h)(next_id h := df), next_id := Suc (next_id h)\<rparr>)"

definition mutate :: "nat \<Rightarrow> 'c dataframe \<Rightarrow> 'c store \<Rightarrow> 'c store" where
  "mutate ref df h = h\<lparr>objs := (objs h)(ref := df)\<rparr>"

text \<open>The frame behind a reference that a function returned together with the store.\<close>

definition deref :: "nat \<times> 'c store \<Rightarrow> 'c dataframe" where
  "deref res = objs (snd res) (fst res)"

definition bind_err :: "'e + 'a \<Rightarrow> ('a \<Rightarrow> 'e + 'b) \<Rightarrow> 'e + 'b" where
  "bind_err m f = (case m of Inl e \<Rightarrow> Inl e | Inr x \<Rightarrow> f x)"

subsection \<open>Column access\<close>

text \<open>\<^verbatim>\<open>df[c]\<close> and \<^verbatim>\<open>df[[c]]\<close>: the values of a column, KeyError when the frame has none of that name.\<close>

definition getitem :: "'c dataframe \<Rightarrow> string \<Rightarrow> error + 'c list" where
  "getitem df c = (if c \<in> set (columns df) then Inr (map (\<lambda>r. snd r c) (rows df)) else Inl KeyError)"

text \<open>
  \<^verbatim>\<open>df[c] = values\<close> with an array, or with a Series that has the index of the frame: the
  values are written by position, a new name is appended to the columns, and a length that
  differs from the number of rows is a ValueError.
\<close>

definition setitem :: "string \<Rightarrow> 'c list \<Rightarrow> 'c dataframe \<Rightarrow> error + 'c dataframe" where
  "setitem c vs df =
     (if length vs \<noteq> length (rows df) then Inl ValueError
      else Inr \<lparr>columns = (if c \<in> set (columns df) then columns df else columns df @ [c]),
                rows = map (\<lambda>(r, v). (fst r, (snd r)(c := v))) (zip (rows df) vs)\<rparr>)"

subsection \<open>Cleaning steps before the split\<close>

text \<open>
  \<^verbatim>\<open>df.drop_duplicates(inplace=True)\<close>: a row is dropped when an earlier row has the same
  values in all columns (the labels do not count, and two missing values count as the
  same value); the first of equal rows stays.
\<close>

definition row_values :: "string list \<Rightarrow> nat \<times> (string \<Rightarrow> 'c) \<Rightarrow> 'c list" where
  "row_values cols r = map (snd r) cols"

fun keep_first :: "('r \<Rightarrow> 'v) \<Rightarrow> 'v list \<Rightarrow> 'r list \<Rightarrow> 'r list" where
  "keep_first key seen [] = []"
| "keep_first key seen (r # rs) =
     (if key r \<in> set seen then keep_first key seen rs
      else r # keep_first key (key r # seen) rs)"

definition deduplicated :: "'c dataframe \<Rightarrow> 'c dataframe" where
  "deduplicated df = df\<lparr>rows := keep_first (row_values (columns df)) [] (rows df)\<rparr>"

definition drop_duplicates :: "nat \<Rightarrow> 'c store \<Rightarrow> 'c store" where
  "drop_duplicates df h = mutate df (deduplicated (objs h df)) h"

text \<open>\<^verbatim>\<open>df.drop(labels=c, axis=1, inplace=True)\<close>: removes a column, KeyError when it is absent.\<close>

definition drop_column :: "string \<Rightarrow> nat \<Rightarrow> 'c store \<Rightarrow> error + 'c store" where
  "drop_column c df h =
     (if c \<in> set (columns (objs h df))
      then Inr (mutate df ((objs h df)\<lparr>columns := removeAll c (columns (objs h df))\<rparr>) h)
      else Inl KeyError)"

text \<open>
  \<^verbatim>\<open>pd.get_dummies(df, columns=[c])\<close>: a new frame in which column \<open>c\<close> is replaced by one
  indicator column for each value that occurs in it, named \<open>c_value\<close> and placed after the
  other columns in the order of the sorted values; a KeyError when the frame has no column
  \<open>c\<close>. A missing value gets no indicator column. The cells of the frame can be of any
  type: \<open>category\<close> gives the text of a cell, \<open>None\<close> for a missing value, and \<open>one\<close> and \<open>zero\<close>
  are the two indicator values.
\<close>

definition get_dummies ::
  "('c \<Rightarrow> string option) \<Rightarrow> 'c \<Rightarrow> 'c \<Rightarrow> string \<Rightarrow> nat \<Rightarrow> 'c store \<Rightarrow> error + (nat \<times> 'c store)" where
  "get_dummies category one zero c df h =
     (if c \<notin> set (columns (objs h df)) then Inl KeyError
      else
        let categories =
              sort (remdups (List.map_filter (\<lambda>r. category (snd r c)) (rows (objs h df))));
            dummy = (\<lambda>v. c @ ''_'' @ v);
            encode = (\<lambda>r. (fst r, (\<lambda>name.
              case find (\<lambda>v. dummy v = name) categories of
                Some v \<Rightarrow> if category (snd r c) = Some v then one else zero
              | None \<Rightarrow> snd r name)))
        in Inr (alloc \<lparr>columns = removeAll c (columns (objs h df)) @ map dummy categories,
                         rows = map encode (rows (objs h df))\<rparr> h))"

subsection \<open>The splitter\<close>

text \<open>
  The product of two doubles is their exact product rounded to the nearest double, a tie
  going to the even significand: a double has 53 significant bits, so between \<open>2^e\<close> and
  \<open>2^(e+1)\<close> the doubles are the multiples of \<open>2^(e-52)\<close>. Overflow and subnormal numbers
  are not modelled. A \<open>real\<close> that stands for a Python float is the value of that float: the
  literal \<^verbatim>\<open>0.2\<close> is the double \<open>3602879701896397 / 2^54\<close>.
\<close>

definition round_half_even :: "real \<Rightarrow> int" where
  "round_half_even x =
     (let f = \<lfloor>x\<rfloor> in
      if x - of_int f < 1/2 then f
      else if 1/2 < x - of_int f then f + 1
      else if even f then f else f + 1)"

definition double_round :: "real \<Rightarrow> real" where
  "double_round x =
     (if x = 0 then 0
      else
        let e = \<lfloor>log 2 \<bar>x\<bar>\<rfloor>;
            ulp = 2 powr (of_int e - 52)
        in of_int (round_half_even (x / ulp)) * ulp)"

definition float_mult :: "real \<Rightarrow> real \<Rightarrow> real" where
  "float_mult x y = double_round (x * y)"

text \<open>
  \<^verbatim>\<open>train_test_split(df, test_size, random_state)\<close> of scikit-learn. The test set has
  \<open>ceil(test_size * n)\<close> rows, the product taken in floating point, and the training set
  the other rows; a \<open>test_size\<close> outside \<open>(0, 1)\<close> and an empty training set are a ValueError.
  The rows are taken by position: the first \<open>n_test\<close> positions of a permutation of
  \<open>0, ..., n - 1\<close> are the test rows, the rest the training rows. The permutation is drawn
  from a new generator seeded with \<open>random_state\<close> when that is an integer, and from numpy's
  global generator, which the draw advances, when it is \<open>None\<close>. The generator is a
  parameter: \<open>seeded\<close> gives the state of a new generator for a seed, \<open>permutation\<close> the
  permutation drawn in a state for a length, and the state after the draw. Both results
  are new frames; the state of the global generator is returned with them.
\<close>

definition take_rows :: "'c dataframe \<Rightarrow> nat list \<Rightarrow> error + 'c dataframe" where
  "take_rows df positions =
     (if list_all (\<lambda>i. i < length (rows df)) positions
      then Inr (df\<lparr>rows := map (\<lambda>i. rows df ! i) positions\<rparr>)
      else Inl IndexError)"

definition train_test_split ::
  "(nat \<Rightarrow> 'g) \<Rightarrow> ('g \<Rightarrow> nat \<Rightarrow> nat list \<times> 'g) \<Rightarrow> 'c dataframe \<Rightarrow> real \<Rightarrow> nat option \<Rightarrow> 'g \<Rightarrow>
     error + (('c dataframe \<times> 'c dataframe) \<times> 'g)" where
  "train_test_split seeded permutation df test_size random_state global_rng =
     (let n_samples = length (rows df) in
      if test_size \<le> 0 \<or> 1 \<le> test_size then Inl ValueError
      else
        let n_test = nat \<lceil>float_mult test_size (real n_samples)\<rceil>;
            n_train = n_samples - n_test
        in if n_train = 0 then Inl ValueError
           else
             let rng = (case random_state of None \<Rightarrow> global_rng | Some seed \<Rightarrow> seeded seed);
                 drawn = permutation rng n_samples;
                 global_rng' = (case random_state of None \<Rightarrow> snd drawn | Some seed \<Rightarrow> global_rng);
                 ind_test = take n_test (fst drawn);
                 ind_train = take n_train (drop n_test (fst drawn))
             in bind_err (take_rows df ind_train) (\<lambda>train.
                bind_err (take_rows df ind_test) (\<lambda>test. Inr ((train, test), global_rng'))))"

section \<open>Numeric columns and the fitted transformers\<close>

text \<open>The values of an array that are not NaN, and \<^verbatim>\<open>np.mean\<close>: NaN on an empty array.\<close>

fun observed :: "float list \<Rightarrow> real list" where
  "observed [] = []"
| "observed (None # xs) = observed xs"
| "observed (Some x # xs) = x # observed xs"

definition np_mean :: "real list \<Rightarrow> float" where
  "np_mean xs = (if xs = [] then None else Some (sum_list xs / real (length xs)))"

text \<open>
  \<^verbatim>\<open>np.sqrt\<close>: NaN below zero. \<^verbatim>\<open>-1 * x\<close>, \<^verbatim>\<open>x - y\<close>, \<^verbatim>\<open>x / y\<close> keep NaN; a
  division by zero raises nothing in numpy (its result is infinite or NaN, here NaN).
\<close>

definition np_sqrt :: "float \<Rightarrow> float" where
  "np_sqrt x = (case x of None \<Rightarrow> None | Some v \<Rightarrow> if v < 0 then None else Some (sqrt v))"

definition float_neg :: "float \<Rightarrow> float" where
  "float_neg x = map_option (\<lambda>v. -1 * v) x"

definition float_sub :: "float \<Rightarrow> float \<Rightarrow> float" where
  "float_sub x y = (case (x, y) of (Some a, Some b) \<Rightarrow> Some (a - b) | _ \<Rightarrow> None)"

definition float_div :: "float \<Rightarrow> float \<Rightarrow> float" where
  "float_div x y = (case (x, y) of (Some a, Some b) \<Rightarrow> if b = 0 then None else Some (a / b) | _ \<Rightarrow> None)"

text \<open>\<^verbatim>\<open>x > threshold\<close> on a float: false on NaN.\<close>

definition float_gt :: "float \<Rightarrow> real \<Rightarrow> bool" where
  "float_gt x t = (case x of None \<Rightarrow> False | Some v \<Rightarrow> t < v)"

text \<open>\<^verbatim>\<open>array.ravel()\<close> of a two-dimensional array, given as the list of its rows.\<close>

definition ravel :: "'a list list \<Rightarrow> 'a list" where
  "ravel X = concat X"

subsection \<open>\<open>Imputer(missing_values=np.NaN, strategy="mean")\<close>\<close>

text \<open>
  The scikit-learn imputer over a one-column array \<^verbatim>\<open>df[["DC"]]\<close>. \<open>statistics\<close> is the
  attribute the fit stores (\<open>None\<close> before any fit): the mean of the values that are not NaN,
  NaN when there is none. \<open>transform\<close> replaces NaN by the stored mean and never fits again;
  a column whose stored mean is NaN is deleted from the result, so each row of the result
  is then empty. An array without rows is a ValueError in both.
\<close>

record imputer =
  statistics :: "float option"

definition Imputer :: imputer where
  "Imputer = \<lparr>statistics = None\<rparr>"

definition impute_value :: "real \<Rightarrow> float \<Rightarrow> float" where
  "impute_value m x = (case x of None \<Rightarrow> Some m | Some v \<Rightarrow> Some v)"

definition imp_fit :: "imputer \<Rightarrow> float list \<Rightarrow> error + imputer" where
  "imp_fit imp X =
     (if X = [] then Inl ValueError
      else Inr (imp\<lparr>statistics := Some (np_mean (observed X))\<rparr>))"

definition imp_transform :: "imputer \<Rightarrow> float list \<Rightarrow> error + float list list" where
  "imp_transform imp X =
     (case statistics imp of
        None \<Rightarrow> Inl NotFittedError
      | Some stat \<Rightarrow>
          if X = [] then Inl ValueError
          else (case stat of
                  None \<Rightarrow> Inr (map (\<lambda>x. []) X)
                | Some m \<Rightarrow> Inr (map (\<lambda>x. [impute_value m x]) X)))"

subsection \<open>\<open>StandardScaler()\<close>\<close>

text \<open>
  The scikit-learn scaler over a one-column array. The fit stores the mean and the scale of
  the values that are not NaN: the scale is the standard deviation (the square root of the
  population variance), and 1 where that is zero. The library computes both in floating
  point and tests the computed standard deviation for zero: for a constant column it is
  zero only when the mean and the deviations are computed without rounding (100, 100; not
  0.1, 0.1, 0.1). The computed mean and standard deviation of a non-empty list of numbers
  are a parameter, \<open>float_moments\<close>. \<open>transform\<close> maps \<open>x\<close> to \<open>(x - mean) / scale\<close> with
  the stored values and never fits again.
\<close>

type_synonym moments = "real list \<Rightarrow> real \<times> real"

record scaler =
  params :: "(float \<times> float) option"

definition StandardScaler :: scaler where
  "StandardScaler = \<lparr>params = None\<rparr>"

definition handle_zeros_in_scale :: "real \<Rightarrow> real" where
  "handle_zeros_in_scale s = (if s = 0 then 1 else s)"

definition scaler_fit :: "moments \<Rightarrow> scaler \<Rightarrow> float list \<Rightarrow> error + scaler" where
  "scaler_fit float_moments sc X =
     (if X = [] then Inl ValueError
      else
        let xs = observed X
        in if xs = [] then Inr (sc\<lparr>params := Some (None, None)\<rparr>)
           else
             let mean = fst (float_moments xs);
                 std = snd (float_moments xs);
                 scale = handle_zeros_in_scale std
             in Inr (sc\<lparr>params := Some (Some mean, Some scale)\<rparr>))"

definition standardize :: "float \<Rightarrow> float \<Rightarrow> float \<Rightarrow> float" where
  "standardize mean scale x = float_div (float_sub x mean) scale"

definition scaler_transform :: "scaler \<Rightarrow> float list \<Rightarrow> error + float list list" where
  "scaler_transform sc X =
     (case params sc of
        None \<Rightarrow> Inl NotFittedError
      | Some (mean, scale) \<Rightarrow>
          if X = [] then Inl ValueError
          else Inr (map (\<lambda>x. [standardize mean scale x]) X))"

section \<open>Preparation steps of the notebook\<close>

text \<open>\<^verbatim>\<open>df.dropna(inplace=True)\<close>: removes, in place, every row with a NaN in some column.\<close>

definition has_nan :: "string list \<Rightarrow> nat \<times> (string \<Rightarrow> float) \<Rightarrow> bool" where
  "has_nan cols r = list_ex (\<lambda>c. snd r c = None) cols"

definition dropna :: "nat \<Rightarrow> float store \<Rightarrow> float store" where
  "dropna df h =
     mutate df ((objs h df)\<lparr>rows := filter (\<lambda>r. \<not> has_nan (columns (objs h df)) r) (rows (objs h df))\<rparr>) h"

text \<open>
  \<open>outlier_removal\<close>: the mask of the rows whose FFMC is above the threshold, the labels of
  the masked rows, and \<^verbatim>\<open>dframe.drop(labels)\<close>, which returns a new frame without the rows
  that carry one of these labels.
\<close>

definition drop_labels :: "nat list \<Rightarrow> 'c dataframe \<Rightarrow> 'c dataframe" where
  "drop_labels labels df = df\<lparr>rows := filter (\<lambda>r. fst r \<notin> set labels) (rows df)\<rparr>"

definition outlier_removal :: "nat \<Rightarrow> real \<Rightarrow> float store \<Rightarrow> error + (nat \<times> float store)" where
  "outlier_removal dframe threshold h =
     bind_err (getitem (objs h dframe) ''FFMC'') (\<lambda>ffmc.
       let rows_to_remove = map (\<lambda>x. float_gt x threshold) ffmc;
           labels = map (\<lambda>rm. fst (fst rm)) (filter snd (zip (rows (objs h dframe)) rows_to_remove))
       in Inr (alloc (drop_labels labels (objs h dframe)) h))"

text \<open>
  \<open>add_did_it_rain\<close>: \<^verbatim>\<open>Series.where(cond, other=1)\<close> keeps a value where the condition
  holds and puts 1 elsewhere; the result is assigned to a column of the frame that was
  passed in, and that same frame is returned.
\<close>

definition series_where :: "float list \<Rightarrow> bool list \<Rightarrow> float \<Rightarrow> float list" where
  "series_where xs cond other = map (\<lambda>(x, c). if c then x else other) (zip xs cond)"

definition add_did_it_rain :: "nat \<Rightarrow> float store \<Rightarrow> error + (nat \<times> float store)" where
  "add_did_it_rain dframe h =
     bind_err (getitem (objs h dframe) ''rain'') (\<lambda>rain.
     bind_err (setitem ''did_it_rain''
                 (series_where rain (map (\<lambda>x. x = Some 0) rain) (Some 1)) (objs h dframe)) (\<lambda>df'.
     Inr (dframe, mutate dframe df' h)))"

subsection \<open>The cells after the split\<close>

text \<open>
  The variables of the notebook the preparation cells read and write. \<open>df_train\<close> and
  \<open>df_test\<close> are references into the store.
\<close>

record notebook =
  store :: "float store"
  df_train :: nat
  df_test :: nat
  imp :: imputer
  normalizer :: scaler

text \<open>Imputation of DC on the training set: a new imputer, fitted on \<open>df_train\<close>.\<close>

definition cell_impute_train :: "notebook \<Rightarrow> error + notebook" where
  "cell_impute_train nb =
     bind_err (getitem (objs (store nb) (df_train nb)) ''DC'') (\<lambda>X.
     bind_err (imp_fit Imputer X) (\<lambda>imp'.
     bind_err (imp_transform imp' X) (\<lambda>Y.
     bind_err (setitem ''DC'' (ravel Y) (objs (store nb) (df_train nb))) (\<lambda>df'.
     Inr (nb\<lparr>store := mutate (df_train nb) df' (store nb), imp := imp'\<rparr>)))))"

definition cell_dropna_train :: "notebook \<Rightarrow> error + notebook" where
  "cell_dropna_train nb = Inr (nb\<lparr>store := dropna (df_train nb) (store nb)\<rparr>)"

definition cell_outliers_train :: "notebook \<Rightarrow> error + notebook" where
  "cell_outliers_train nb =
     bind_err (outlier_removal (df_train nb) 120 (store nb)) (\<lambda>(ref, h).
     Inr (nb\<lparr>store := h, df_train := ref\<rparr>))"

text \<open>Normalization of DC on the training set: a new scaler, fitted on \<open>df_train\<close>.\<close>

definition cell_normalize_train :: "moments \<Rightarrow> notebook \<Rightarrow> error + notebook" where
  "cell_normalize_train float_moments nb =
     bind_err (getitem (objs (store nb) (df_train nb)) ''DC'') (\<lambda>X.
     bind_err (scaler_fit float_moments StandardScaler X) (\<lambda>normalizer'.
     bind_err (scaler_transform normalizer' X) (\<lambda>Y.
     bind_err (setitem ''DC'' (ravel Y) (objs (store nb) (df_train nb))) (\<lambda>df'.
     Inr (nb\<lparr>store := mutate (df_train nb) df' (store nb), normalizer := normalizer'\<rparr>)))))"

definition cell_rain_train :: "notebook \<Rightarrow> error + notebook" where
  "cell_rain_train nb =
     bind_err (add_did_it_rain (df_train nb) (store nb)) (\<lambda>(ref, h).
     Inr (nb\<lparr>store := h, df_train := ref\<rparr>))"

definition prepare_train :: "moments \<Rightarrow> notebook \<Rightarrow> error + notebook" where
  "prepare_train float_moments nb =
     bind_err (cell_impute_train nb) (\<lambda>nb1.
     bind_err (cell_dropna_train nb1) (\<lambda>nb2.
     bind_err (cell_outliers_train nb2) (\<lambda>nb3.
     bind_err (cell_normalize_train float_moments nb3) cell_rain_train)))"

text \<open>
  The test-set cell, up to the engineered column: the same steps on \<open>df_test\<close>, with the
  imputer and the scaler that the training cells left in \<open>imp\<close> and \<open>normalizer\<close>.
\<close>

definition prepare_test :: "notebook \<Rightarrow> error + notebook" where
  "prepare_test nb =
     bind_err (getitem (objs (store nb) (df_test nb)) ''DC'') (\<lambda>X.
     bind_err (imp_transform (imp nb) X) (\<lambda>Y.
     bind_err (setitem ''DC'' (ravel Y) (objs (store nb) (df_test nb))) (\<lambda>df1.
     let h1 = dropna (df_test nb) (mutate (df_test nb) df1 (store nb)) in
     bind_err (outlier_removal (df_test nb) 120 h1) (\<lambda>(ref, h2).
     bind_err (getitem (objs h2 ref) ''DC'') (\<lambda>X'.
     bind_err (scaler_transform (normalizer nb) X') (\<lambda>Y'.
     bind_err (setitem ''DC'' (ravel Y') (objs h2 ref)) (\<lambda>df2.
     bind_err (add_did_it_rain ref (mutate ref df2 h2)) (\<lambda>(ref', h3).
     Inr (nb\<lparr>store := h3, df_test := ref'\<rparr>)))))))))"

section \<open>The hyperparameter sweep\<close>

text \<open>
  \<^verbatim>\<open>cross_validate(..., cv=5, scoring=["r2", "neg_mean_squared_error"])\<close> returns, for each
  scorer, one score per fold; the second scorer is the negated mean squared error of the
  fold. The estimator and the folds are the library's: \<open>cross_validate\<close> is a parameter,
  the scores it returns for a number of trees and a depth.
\<close>

record cv_scores =
  test_r2 :: "real list"
  test_neg_mean_squared_error :: "real list"

definition tree_grid :: "nat list" where
  "tree_grid = [100, 200, 300]"

definition depth_grid :: "nat list" where
  "depth_grid = [1, 5, 10, 20]"

definition sweep_body ::
  "(nat \<Rightarrow> nat \<Rightarrow> cv_scores) \<Rightarrow> nat \<Rightarrow> nat \<Rightarrow> (nat \<times> nat \<rightharpoonup> float \<times> float) \<Rightarrow>
     (nat \<times> nat \<rightharpoonup> float \<times> float)" where
  "sweep_body cross_validate n_trees depth results =
     (let result = cross_validate n_trees depth;
          r2 = np_mean (test_r2 result);
          RMSE = np_sqrt (float_neg (np_mean (test_neg_mean_squared_error result)))
      in results((n_trees, depth) \<mapsto> (r2, RMSE)))"

fun depth_loop ::
  "(nat \<Rightarrow> nat \<Rightarrow> cv_scores) \<Rightarrow> nat \<Rightarrow> nat list \<Rightarrow> (nat \<times> nat \<rightharpoonup> float \<times> float) \<Rightarrow>
     (nat \<times> nat \<rightharpoonup> float \<times> float)" where
  "depth_loop cross_validate n_trees [] results = results"
| "depth_loop cross_validate n_trees (depth # rest) results =
     depth_loop cross_validate n_trees rest (sweep_body cross_validate n_trees depth results)"

fun tree_loop ::
  "(nat \<Rightarrow> nat \<Rightarrow> cv_scores) \<Rightarrow> nat list \<Rightarrow> nat list \<Rightarrow> (nat \<times> nat \<rightharpoonup> float \<times> float) \<Rightarrow>
     (nat \<times> nat \<rightharpoonup> float \<times> float)" where
  "tree_loop cross_validate [] depths results = results"
| "tree_loop cross_validate (n_trees # rest) depths results =
     tree_loop cross_validate rest depths (depth_loop cross_validate n_trees depths results)"

definition grid_sweep :: "(nat \<Rightarrow> nat \<Rightarrow> cv_scores) \<Rightarrow> (nat \<times> nat \<rightharpoonup> float \<times> float)" where
  "grid_sweep cross_validate = tree_loop cross_validate tree_grid depth_grid Map.empty"

text \<open>The frames behind the two variables of the notebook.\<close>

definition train_frame :: "notebook \<Rightarrow> float dataframe" where
  "train_frame nb = objs (store nb) (df_train nb)"

definition test_frame :: "notebook \<Rightarrow> float dataframe" where
  "test_frame nb = objs (store nb) (df_test nb)"

section \<open>The statistics of a column, for the statements\<close>

text \<open>
  The mean and the population standard deviation of a non-empty list of numbers, written
  out; and the rows a preparation cell leaves of a frame, written as maps and filters over
  the rows of the frame.
\<close>

definition column_mean :: "real list \<Rightarrow> real" where
  "column_mean xs = sum_list xs / real (length xs)"

definition column_std :: "real list \<Rightarrow> real" where
  "column_std xs = sqrt (sum_list (map (\<lambda>x. (x - column_mean xs)\<^sup>2) xs) / real (length xs))"

text \<open>
  The moments without rounding: what the floating-point computation returns on a column
  where none of its operations rounds.
\<close>

definition exact_moments :: moments where
  "exact_moments xs = (column_mean xs, column_std xs)"

definition dc_values :: "(nat \<times> (string \<Rightarrow> float)) list \<Rightarrow> float list" where
  "dc_values rs = map (\<lambda>r. snd r ''DC'') rs"

definition update_dc :: "(float \<Rightarrow> float) \<Rightarrow> nat \<times> (string \<Rightarrow> float) \<Rightarrow> nat \<times> (string \<Rightarrow> float)" where
  "update_dc g r = (fst r, (snd r)(''DC'' := g (snd r ''DC'')))"

definition cleaned_rows ::
  "real \<Rightarrow> string list \<Rightarrow> (nat \<times> (string \<Rightarrow> float)) list \<Rightarrow> (nat \<times> (string \<Rightarrow> float)) list" where
  "cleaned_rows m cols rs =
     filter (\<lambda>r. \<not> float_gt (snd r ''FFMC'') 120)
       (filter (\<lambda>r. \<not> has_nan cols r) (map (update_dc (impute_value m)) rs))"

text \<open>
  What the training cells compute from a training frame alone: the mean that the imputer
  stores, and the DC values the scaler is fitted on, those of the rows left after the
  imputation, the removal of rows with a missing value and the removal of outliers.
\<close>

definition train_imputation_mean :: "float dataframe \<Rightarrow> real" where
  "train_imputation_mean tr = column_mean (observed (dc_values (rows tr)))"

definition train_dc_values :: "float dataframe \<Rightarrow> real list" where
  "train_dc_values tr =
     observed (dc_values (cleaned_rows (train_imputation_mean tr) (columns tr) (rows tr)))"

definition with_did_it_rain :: "nat \<times> (string \<Rightarrow> float) \<Rightarrow> nat \<times> (string \<Rightarrow> float)" where
  "with_did_it_rain r =
     (fst r, (snd r)(''did_it_rain'' := (if snd r ''rain'' = Some 0 then Some 0 else Some 1)))"

section \<open>Example inputs\<close>

text \<open>
  A frame of six rows with a value above the FFMC threshold, a value equal to it, a missing
  DC, a missing rain, and two rows with equal values; the double that the literal
  \<^verbatim>\<open>0.2\<close> denotes; and a generator whose state is a counter, that draws the reversed
  order in an even state and the given order in an odd one.
\<close>

definition mk_row :: "float \<Rightarrow> float \<Rightarrow> float \<Rightarrow> string \<Rightarrow> float" where
  "mk_row ffmc dc rain = (\<lambda>c. None)(''FFMC'' := ffmc, ''DC'' := dc, ''rain'' := rain)"

definition six_rows :: "float dataframe" where
  "six_rows =
     \<lparr>columns = [''FFMC'', ''DC'', ''rain''],
      rows = [(0, mk_row (Some 90) (Some 100) (Some 0)),
              (1, mk_row (Some 121) (Some 200) (Some 0)),
              (2, mk_row (Some 120) None (Some 2)),
              (3, mk_row (Some 85) (Some 300) None),
              (4, mk_row (Some 90) (Some 100) (Some 0)),
              (5, mk_row (Some 70) (Some 400) (Some 1))]\<rparr>"

definition double_0_2 :: real where
  "double_0_2 = 3602879701896397 / 18014398509481984"

definition seed_state :: "nat \<Rightarrow> nat" where
  "seed_state seed = seed"

definition alternating_permutation :: "nat \<Rightarrow> nat \<Rightarrow> nat list \<times> nat" where
  "alternating_permutation state n = ((if even state then rev [0..<n] else [0..<n]), Suc state)"

text \<open>A store whose reference 0 holds the six-row frame.\<close>

definition six_rows_store :: "float store" where
  "six_rows_store = \<lparr>objs = (\<lambda>ref. six_rows), next_id = 1\<rparr>"

text \<open>
  Two test frames, and the notebook after the split with the six-row frame as training
  set and a given frame as test set.
\<close>

definition small_test :: "float dataframe" where
  "small_test =
     \<lparr>columns = [''FFMC'', ''DC'', ''rain''],
      rows = [(6, mk_row (Some 95) None (Some 0)),
              (7, mk_row (Some 130) (Some 500) (Some 3))]\<rparr>"

definition other_test :: "float dataframe" where
  "other_test =
     \<lparr>columns = [''FFMC'', ''DC'', ''rain''],
      rows = [(8, mk_row (Some 50) (Some 1000) (Some 9))]\<rparr>"

definition demo_notebook :: "float dataframe \<Rightarrow> notebook" where
  "demo_notebook test =
     \<lparr>store = \<lparr>objs = (\<lambda>ref. if ref = 0 then six_rows else test), next_id = 2\<rparr>,
      df_train = 0, df_test = 1, imp = Imputer, normalizer = StandardScaler\<rparr>"


definition missing_dc :: "float dataframe" where
  "missing_dc =
     \<lparr>columns = [''FFMC'', ''DC'', ''rain''],
      rows = [(0, mk_row (Some 90) None (Some 0)),
              (1, mk_row (Some 80) None (Some 1))]\<rparr>"

definition notebook_of :: "float dataframe \<Rightarrow> notebook" where
  "notebook_of train =
     \<lparr>store = \<lparr>objs = (\<lambda>ref. if ref = 0 then train else small_test), next_id = 2\<rparr>,
      df_train = 0, df_test = 1, imp = Imputer, normalizer = StandardScaler\<rparr>"

text \<open>A frame with a month column, before the encoding; its cells are texts.\<close>

definition months :: "string option dataframe" where
  "months =
     \<lparr>columns = [''month'', ''X''],
      rows = [(0, (\<lambda>c. None)(''month'' := Some ''mar'', ''X'' := Some ''7'')),
              (1, (\<lambda>c. None)(''month'' := Some ''aug'', ''X'' := Some ''8'')),
              (2, (\<lambda>c. None)(''month'' := None, ''X'' := Some ''1'')),
              (3, (\<lambda>c. None)(''month'' := Some ''mar'', ''X'' := Some ''2''))]\<rparr>"

definition months_store :: "string option store" where
  "months_store = \<lparr>objs = (\<lambda>ref. months), next_id = 1\<rparr>"

text \<open>Scores of five folds whose mean squared errors are 1, 4, 9, 16, 25.\<close>

definition five_folds :: "nat \<Rightarrow> nat \<Rightarrow> cv_scores" where
  "five_folds n_trees depth =
     \<lparr>test_r2 = [1/2, 1/4, 0, -1/4, 1/2],
      test_neg_mean_squared_error = [-1, -4, -9, -16, -25]\<rparr>"

section \<open>Properties of \<open>extract_info\<close>\<close>

lemma append_words_eq: "append_words acc ws = acc @ ws"
  by (induction ws arbitrary: acc) auto

lemma list_at_SomeD: "list_at j k = Some xs \<Longrightarrow> py_getitem j k = Inr (JArr xs)"
  by (auto simp: list_at_def split: sum.splits json.splits)

lemma line_loop_words:
  "\<forall>l\<in>set ls. list_at l ''words'' \<noteq> None \<Longrightarrow>
   line_loop acc ls = Inr (acc @ concat (map (\<lambda>l. the (list_at l ''words'')) ls))"
proof (induction ls arbitrary: acc)
  case Nil
  then show ?case by simp
next
  case (Cons l ls)
  then obtain ws where ws: "list_at l ''words'' = Some ws" by auto
  have "line_loop acc (l # ls) = line_loop (acc @ ws) ls"
    using list_at_SomeD[OF ws] by (simp add: append_words_eq)
  with Cons ws show ?case by simp
qed

lemma lines_of_regions_lines:
  "\<forall>r\<in>set rs. list_at r ''lines'' \<noteq> None \<Longrightarrow>
   lines_of_regions rs = Inr (map (\<lambda>r. JArr (the (list_at r ''lines''))) rs)"
proof (induction rs)
  case Nil
  then show ?case by simp
next
  case (Cons r rs)
  then obtain ls where ls: "list_at r ''lines'' = Some ls" by auto
  with Cons list_at_SomeD[OF ls] show ?case by simp
qed

lemma region_loop_lines:
  "\<forall>ls\<in>set lss. \<forall>l\<in>set ls. list_at l ''words'' \<noteq> None \<Longrightarrow>
   region_loop acc (map JArr lss) =
     Inr (acc @ concat (map (\<lambda>ls. concat (map (\<lambda>l. the (list_at l ''words'')) ls)) lss))"
proof (induction lss arbitrary: acc)
  case Nil
  then show ?case by simp
next
  case (Cons ls lss)
  then have "\<forall>l\<in>set ls. list_at l ''words'' \<noteq> None" by simp
  from line_loop_words[OF this] Cons show ?case by simp
qed

text \<open>
  C10. For an analysis whose \<open>regions\<close> entry is a list of regions, each with a list of
  lines, each line with a list of words, \<open>extract_info\<close> returns the concatenation of all
  word entries: regions in order, lines of a region in order, words of a line in order,
  each entry once. The function is a pure function of the analysis: it only reads it.
\<close>

theorem extract_info_concat:
  assumes "list_at analysis ''regions'' = Some regions"
    and "\<forall>r\<in>set regions. list_at r ''lines'' \<noteq> None \<and>
           (\<forall>l\<in>set (the (list_at r ''lines'')). list_at l ''words'' \<noteq> None)"
  shows "extract_info analysis =
     Inr (concat (map (\<lambda>r. concat (map (\<lambda>l. the (list_at l ''words''))
                                         (the (list_at r ''lines'')))) regions))"
proof -
  have lines: "lines_of_regions regions = Inr (map (\<lambda>r. JArr (the (list_at r ''lines''))) regions)"
    using assms(2) by (intro lines_of_regions_lines) simp
  have "region_loop [] (map JArr (map (\<lambda>r. the (list_at r ''lines'')) regions)) =
      Inr ([] @ concat (map (\<lambda>ls. concat (map (\<lambda>l. the (list_at l ''words'')) ls))
                            (map (\<lambda>r. the (list_at r ''lines'')) regions)))"
    using assms(2) by (intro region_loop_lines) simp
  then have "region_loop [] (map (\<lambda>r. JArr (the (list_at r ''lines''))) regions) =
      Inr (concat (map (\<lambda>r. concat (map (\<lambda>l. the (list_at l ''words''))
                                          (the (list_at r ''lines'')))) regions))"
    by (simp add: comp_def)
  with lines list_at_SomeD[OF assms(1)] show ?thesis
    by (simp add: extract_info_def)
qed

theorem extract_info_concat_witness:
  "extract_info
     (JObj [(''language'', JStr ''en''),
            (''regions'',
              JArr [JObj [(''lines'',
                      JArr [JObj [(''words'', JArr [JStr ''a'', JStr ''b''])],
                            JObj [(''words'', JArr [JStr ''c''])]])],
                    JObj [(''lines'', JArr [JObj [(''words'', JArr [JStr ''d''])]])]])])
   = Inr [JStr ''a'', JStr ''b'', JStr ''c'', JStr ''d'']"
  using extract_info_concat
    [of "JObj [(''language'', JStr ''en''),
            (''regions'',
              JArr [JObj [(''lines'',
                      JArr [JObj [(''words'', JArr [JStr ''a'', JStr ''b''])],
                            JObj [(''words'', JArr [JStr ''c''])]])],
                    JObj [(''lines'', JArr [JObj [(''words'', JArr [JStr ''d''])]])]])]"
        "[JObj [(''lines'',
                      JArr [JObj [(''words'', JArr [JStr ''a'', JStr ''b''])],
                            JObj [(''words'', JArr [JStr ''c''])]])],
                    JObj [(''lines'', JArr [JObj [(''words'', JArr [JStr ''d''])]])]]"]
  by (simp add: list_at_def)

section \<open>Deduplication\<close>

lemma keep_first_subset: "set (keep_first key seen rs) \<subseteq> set rs"
  by (induction rs arbitrary: seen) auto

lemma keep_first_subseq: "subseq (keep_first key seen rs) rs"
  by (induction rs arbitrary: seen) auto

lemma keep_first_keys: "key ` set (keep_first key seen rs) = key ` set rs - set seen"
  by (induction rs arbitrary: seen) auto

lemma keep_first_unseen: "r \<in> set (keep_first key seen rs) \<Longrightarrow> key r \<notin> set seen"
  using keep_first_keys[of key seen rs] by blast

lemma keep_first_distinct: "distinct (map key (keep_first key seen rs))"
  by (induction rs arbitrary: seen) (auto dest: keep_first_unseen)

text \<open>
  C7. After \<open>drop_duplicates\<close> the frame has no two rows with the same values, its rows are
  rows of the frame before, in their original relative order, and every row of the frame
  before still has a row with its values; the columns are unchanged.
\<close>

theorem drop_duplicates_unique:
  "distinct (map (row_values (columns (objs h df))) (rows (objs (drop_duplicates df h) df)))
   \<and> set (rows (objs (drop_duplicates df h) df)) \<subseteq> set (rows (objs h df))
   \<and> subseq (rows (objs (drop_duplicates df h) df)) (rows (objs h df))
   \<and> row_values (columns (objs h df)) ` set (rows (objs (drop_duplicates df h) df))
       = row_values (columns (objs h df)) ` set (rows (objs h df))
   \<and> columns (objs (drop_duplicates df h) df) = columns (objs h df)"
  by (simp add: drop_duplicates_def mutate_def deduplicated_def keep_first_distinct
      keep_first_subset keep_first_subseq keep_first_keys)

section \<open>The splitter\<close>

lemma take_rows_in_range:
  "set ps \<subseteq> {..<length (rows df)} \<Longrightarrow>
   take_rows df ps = Inr (df\<lparr>rows := map (\<lambda>i. rows df ! i) ps\<rparr>)"
  by (auto simp: take_rows_def list_all_iff)

lemma mset_map_nth_permutation:
  assumes "mset p = mset [0..<length xs]"
  shows "mset (map (\<lambda>i. xs ! i) p) = mset xs"
proof -
  have "mset (map (\<lambda>i. xs ! i) p) = image_mset (\<lambda>i. xs ! i) (mset p)" by simp
  also have "\<dots> = image_mset (\<lambda>i. xs ! i) (mset [0..<length xs])" using assms by simp
  also have "\<dots> = mset (map (\<lambda>i. xs ! i) [0..<length xs])" by simp
  also have "\<dots> = mset xs" by (simp add: map_nth)
  finally show ?thesis .
qed

lemma double_round_unit:
  assumes "1 \<le> x" and "x < 2"
  shows "double_round x = of_int (round_half_even (x * 2 ^ 52)) / 2 ^ 52"
proof -
  have "0 \<le> log 2 x" using assms(1) by simp
  moreover have "log 2 x < 1" using assms by simp
  ultimately have e: "\<lfloor>log 2 \<bar>x\<bar>\<rfloor> = 0" using assms(1) by (simp add: floor_eq_iff)
  have u: "(2::real) powr (of_int 0 - 52) = 1 / 2 ^ 52"
    by (simp add: powr_minus_divide)
  show ?thesis
    using assms(1) unfolding double_round_def Let_def e u by simp
qed

lemma float_mult_0_2_6: "float_mult double_0_2 6 = 5404319552844596 / 2 ^ 52"
proof -
  have "float_mult double_0_2 6 =
      of_int (round_half_even (double_0_2 * 6 * 2 ^ 52)) / 2 ^ 52"
    unfolding float_mult_def by (rule double_round_unit) (simp_all add: double_0_2_def)
  moreover have "round_half_even (double_0_2 * 6 * 2 ^ 52) = 5404319552844596"
    by (simp add: round_half_even_def double_0_2_def Let_def)
  ultimately show ?thesis by simp
qed

text \<open>
  C3, amended. For a test size in \<open>(0, 1)\<close> that leaves a training row, an integer seed, and
  a generator that draws a permutation of the positions, the splitter returns two new
  frames with the columns of the input; the test frame has as many rows as the
  floating-point product \<open>test_size * n\<close> rounded up (not rounded to the nearest integer),
  and the training frame the other rows; every row of the input goes to exactly one of the
  two, so that they are disjoint when the labels are distinct; and whatever the state of
  the global generator, the call returns this same partition and leaves that state as it
  was, so that the same frame, fraction and seed give the same partition at every call.
\<close>

theorem train_test_split_partition:
  assumes perm: "mset (fst (permutation (seeded seed) (length (rows df)))) =
      mset [0..<length (rows df)]"
    and size: "0 < test_size" "test_size < 1"
    and train_nonempty:
      "nat \<lceil>float_mult test_size (real (length (rows df)))\<rceil> < length (rows df)"
  shows "\<exists>train test.
      (\<forall>global_rng. train_test_split seeded permutation df test_size (Some seed) global_rng =
          Inr ((train, test), global_rng))
    \<and> length (rows test) = nat \<lceil>float_mult test_size (real (length (rows df)))\<rceil>
    \<and> length (rows train) =
        length (rows df) - nat \<lceil>float_mult test_size (real (length (rows df)))\<rceil>
    \<and> mset (rows train) + mset (rows test) = mset (rows df)
    \<and> (distinct (index df) \<longrightarrow> set (rows train) \<inter> set (rows test) = {})
    \<and> columns train = columns df \<and> columns test = columns df"
proof -
  define n where "n = length (rows df)"
  define k where "k = nat \<lceil>float_mult test_size (real n)\<rceil>"
  define p where "p = fst (permutation (seeded seed) n)"
  define test where "test = df\<lparr>rows := map (\<lambda>i. rows df ! i) (take k p)\<rparr>"
  define train where "train = df\<lparr>rows := map (\<lambda>i. rows df ! i) (drop k p)\<rparr>"
  have mp: "mset p = mset [0..<n]" using perm by (simp add: p_def n_def)
  have len: "length p = n" using mset_eq_length[OF mp] by simp
  have "set p = set [0..<n]" by (rule mset_eq_setD[OF mp])
  then have setp: "set p = {..<n}" by (simp only: set_upt atLeast0LessThan)
  have kn: "k < n" using train_nonempty by (simp add: k_def n_def)
  have tk: "take (n - k) (drop k p) = drop k p" using len by simp
  have in_test: "set (take k p) \<subseteq> {..<length (rows df)}"
    using set_take_subset[of k p] setp by (simp add: n_def)
  have in_train: "set (drop k p) \<subseteq> {..<length (rows df)}"
    using set_drop_subset[of k p] setp by (simp add: n_def)
  have split: "train_test_split seeded permutation df test_size (Some seed) g =
      Inr ((train, test), g)" for g
  proof -
    have a: "take_rows df (take (n - k) (drop k p)) = Inr train"
      unfolding tk train_def by (rule take_rows_in_range[OF in_train])
    have b: "take_rows df (take k p) = Inr test"
      unfolding test_def by (rule take_rows_in_range[OF in_test])
    have c: "\<not> (test_size \<le> 0 \<or> 1 \<le> test_size)" using size by simp
    have d: "n - k \<noteq> 0" using kn by simp
    have "train_test_split seeded permutation df test_size (Some seed) g =
        bind_err (take_rows df (take (n - k) (drop k p))) (\<lambda>train.
          bind_err (take_rows df (take k p)) (\<lambda>test. Inr ((train, test), g)))"
      unfolding train_test_split_def Let_def n_def[symmetric] k_def[symmetric] option.case
        p_def[symmetric]
      using c d by (simp only: if_False)
    then show ?thesis by (simp only: a b bind_err_def sum.case)
  qed
  have "mset (rows train) + mset (rows test) =
      mset (map (\<lambda>i. rows df ! i) (take k p)) + mset (map (\<lambda>i. rows df ! i) (drop k p))"
    by (simp add: train_def test_def)
  also have "\<dots> = mset (map (\<lambda>i. rows df ! i) (take k p @ drop k p))"
    by (simp only: map_append mset_append)
  also have "\<dots> = mset (map (\<lambda>i. rows df ! i) p)"
    by (simp only: append_take_drop_id)
  also have "\<dots> = mset (rows df)"
    using mset_map_nth_permutation[of p "rows df"] mp by (simp add: n_def)
  finally have part: "mset (rows train) + mset (rows test) = mset (rows df)" .
  have disj: "set (rows train) \<inter> set (rows test) = {}" if "distinct (index df)"
  proof -
    from that have "distinct (rows df)" by (simp add: index_def distinct_map)
    moreover have "mset (rows train @ rows test) = mset (rows df)" using part by simp
    ultimately have "distinct (rows train @ rows test)" by (metis mset_eq_imp_distinct_iff)
    then show ?thesis by auto
  qed
  have lt: "length (rows test) = nat \<lceil>float_mult test_size (real (length (rows df)))\<rceil>"
    using kn len by (simp add: test_def k_def n_def)
  have ltr: "length (rows train) =
      length (rows df) - nat \<lceil>float_mult test_size (real (length (rows df)))\<rceil>"
    using len by (simp add: train_def k_def n_def)
  have cols: "columns train = columns df" "columns test = columns df"
    by (simp_all add: train_def test_def)
  have s0: "\<forall>global_rng. train_test_split seeded permutation df test_size (Some seed) global_rng =
          Inr ((train, test), global_rng)"
    using split by blast
  show ?thesis
    apply (rule exI[of _ train], rule exI[of _ test])
    using s0 lt ltr part disj cols by blast
qed

lemma six_rows_split_count:
  "nat \<lceil>float_mult double_0_2 (real (length (rows six_rows)))\<rceil> = 2"
proof -
  have n: "real (length (rows six_rows)) = 6" by (simp add: six_rows_def)
  show ?thesis unfolding n float_mult_0_2_6 by simp
qed

theorem train_test_split_partition_witness:
  "\<exists>train test.
      train_test_split seed_state alternating_permutation six_rows double_0_2 (Some 42) 0 =
        Inr ((train, test), 0)
    \<and> train_test_split seed_state alternating_permutation six_rows double_0_2 (Some 42) 7 =
        Inr ((train, test), 7)
    \<and> length (rows test) = 2 \<and> length (rows train) = 4
    \<and> mset (rows train) + mset (rows test) = mset (rows six_rows)
    \<and> set (rows train) \<inter> set (rows test) = {}"
proof -
  have n: "length (rows six_rows) = 6" by (simp add: six_rows_def)
  have p: "mset (fst (alternating_permutation (seed_state 42) (length (rows six_rows)))) =
      mset [0..<length (rows six_rows)]"
    by (simp add: alternating_permutation_def seed_state_def)
  have s: "0 < double_0_2" "double_0_2 < 1" by (simp_all add: double_0_2_def)
  have t: "nat \<lceil>float_mult double_0_2 (real (length (rows six_rows)))\<rceil> < length (rows six_rows)"
    unfolding six_rows_split_count by (simp add: n)
  have d: "distinct (index six_rows)" by (simp add: index_def six_rows_def)
  from train_test_split_partition[of alternating_permutation seed_state 42 six_rows double_0_2,
      OF p s t]
  show ?thesis unfolding six_rows_split_count using n d by auto
qed

text \<open>
  The count is not the nearest integer: six rows and the fraction 0.2 give two test rows,
  and the nearest integer to their product is 1.
\<close>

theorem train_test_split_nearest_counterexample:
  "map_sum id (length \<circ> rows \<circ> snd \<circ> fst)
     (train_test_split seed_state alternating_permutation six_rows double_0_2 (Some 42) 0) = Inr 2
   \<and> round (double_0_2 * real (length (rows six_rows))) = 1"
proof -
  have n: "length (rows six_rows) = 6" by (simp add: six_rows_def)
  have c: "\<not> (double_0_2 \<le> 0 \<or> 1 \<le> double_0_2)" by (simp add: double_0_2_def)
  have p: "fst (alternating_permutation (seed_state 42) 6) = [5, 4, 3, 2, 1, 0]"
    by (simp add: alternating_permutation_def seed_state_def upt_rec)
  have k: "nat \<lceil>float_mult double_0_2 6\<rceil> = 2"
    unfolding float_mult_0_2_6 by simp
  have r: "round (double_0_2 * real (length (rows six_rows))) = 1"
    by (simp add: n double_0_2_def round_def)
  have "map_sum id (length \<circ> rows \<circ> snd \<circ> fst)
     (train_test_split seed_state alternating_permutation six_rows double_0_2 (Some 42) 0) = Inr 2"
    unfolding train_test_split_def Let_def n option.case p
    using c k by (simp add: take_rows_def bind_err_def six_rows_def)
  with r show ?thesis by simp
qed

text \<open>
  Without a seed the draw comes from the global generator: the call advances it, and the
  partition follows its state.
\<close>

lemma train_test_split_unseeded_example:
  "map_sum id snd (train_test_split seed_state alternating_permutation six_rows double_0_2 None 0) = Inr 1
   \<and> map_sum id (map fst \<circ> rows \<circ> snd \<circ> fst)
       (train_test_split seed_state alternating_permutation six_rows double_0_2 None 0) = Inr [5, 4]
   \<and> map_sum id (map fst \<circ> rows \<circ> snd \<circ> fst)
       (train_test_split seed_state alternating_permutation six_rows double_0_2 None 1) = Inr [0, 1]"
proof -
  have n: "length (rows six_rows) = 6" by (simp add: six_rows_def)
  have c: "\<not> (double_0_2 \<le> 0 \<or> 1 \<le> double_0_2)" by (simp add: double_0_2_def)
  have k: "nat \<lceil>float_mult double_0_2 6\<rceil> = 2"
    unfolding float_mult_0_2_6 by simp
  have p: "alternating_permutation 0 6 = ([5, 4, 3, 2, 1, 0], 1)"
    "alternating_permutation 1 6 = ([0, 1, 2, 3, 4, 5], 2)"
    by (simp_all add: alternating_permutation_def upt_rec)
  show ?thesis
    unfolding train_test_split_def Let_def n option.case p
    using c k by (simp add: take_rows_def bind_err_def six_rows_def)
qed

section \<open>The hyperparameter sweep\<close>

lemma depth_loop_lookup:
  "depth_loop cv n ds results (n', d) =
     (if n' = n \<and> d \<in> set ds
      then Some (np_mean (test_r2 (cv n d)),
                 np_sqrt (float_neg (np_mean (test_neg_mean_squared_error (cv n d)))))
      else results (n', d))"
proof (induction ds arbitrary: results)
  case Nil
  then show ?case by simp
next
  case (Cons a ds)
  show ?case
    unfolding depth_loop.simps Cons.IH by (auto simp: sweep_body_def Let_def)
qed

lemma tree_loop_lookup:
  "tree_loop cv ns ds results (n, d) =
     (if n \<in> set ns \<and> d \<in> set ds
      then Some (np_mean (test_r2 (cv n d)),
                 np_sqrt (float_neg (np_mean (test_neg_mean_squared_error (cv n d)))))
      else results (n, d))"
  by (induction ns arbitrary: results) (auto simp: depth_loop_lookup)

lemma sum_list_map_uminus: "sum_list (map uminus xs) = - sum_list (xs :: real list)"
  by (induction xs) auto

lemma rmse_of_negated:
  assumes "xs \<noteq> []" "\<forall>m\<in>set xs. 0 \<le> m"
  shows "np_sqrt (float_neg (np_mean (map uminus xs))) = Some (sqrt (sum_list xs / real (length xs)))"
proof -
  have "0 \<le> sum_list xs" using assms(2) by (simp add: sum_list_nonneg)
  then have "0 \<le> sum_list xs / real (length xs)" by simp
  then show ?thesis
    using assms(1) by (simp add: np_sqrt_def float_neg_def np_mean_def sum_list_map_uminus)
qed

text \<open>
  C2. For every pair of the grid, the sweep records as RMSE the square root of the mean of
  the per-fold mean squared errors (the scorer returns them negated; they are not negative
  and there is at least one fold). For the fold errors 1, 4, 9, 16, 25 that is the square
  root of 11, not 3, the mean of the roots.
\<close>

theorem grid_sweep_rmse:
  assumes "n_trees \<in> set tree_grid" and "depth \<in> set depth_grid"
    and "test_neg_mean_squared_error (cross_validate n_trees depth) = map uminus fold_mse"
    and "fold_mse \<noteq> []" and "\<forall>m\<in>set fold_mse. 0 \<le> m"
  shows "grid_sweep cross_validate (n_trees, depth) =
     Some (np_mean (test_r2 (cross_validate n_trees depth)),
           Some (sqrt (sum_list fold_mse / real (length fold_mse))))"
  using assms(1,2) rmse_of_negated[OF assms(4,5)]
  by (simp only: grid_sweep_def tree_loop_lookup assms(3) if_True conj_absorb simp_thms)

lemma sqrt_11_not_3: "sqrt 11 \<noteq> 3"
proof
  assume "sqrt 11 = 3"
  then have "(sqrt 11)\<^sup>2 = 3\<^sup>2" by simp
  then show False by simp
qed

theorem grid_sweep_rmse_witness:
  "grid_sweep five_folds (100, 1) = Some (Some (1/5), Some (sqrt 11))
   \<and> sqrt 11 \<noteq> 3
   \<and> sum_list (map sqrt [1, 4, 9, 16, 25]) / 5 = 3"
proof -
  have a: "test_neg_mean_squared_error (five_folds 100 1) = map uminus [1, 4, 9, 16, 25]"
    by (simp add: five_folds_def)
  have s: "sqrt 9 = 3" "sqrt 16 = 4" "sqrt 25 = 5"
    using real_sqrt_abs[of 3] real_sqrt_abs[of 4] real_sqrt_abs[of 5] by simp_all
  from grid_sweep_rmse[of 100 1 five_folds "[1, 4, 9, 16, 25]", OF _ _ a]
  have "grid_sweep five_folds (100, 1) = Some (Some (1/5), Some (sqrt 11))"
    by (simp add: tree_grid_def depth_grid_def five_folds_def np_mean_def)
  with sqrt_11_not_3 s show ?thesis by simp
qed

section \<open>Outlier filtering\<close>

lemma masked_labels:
  "map (\<lambda>rm. fst (fst rm)) (filter snd (zip rs (map f rs))) = map fst (filter f rs)"
  by (induction rs) auto

lemma outlier_removal_eq:
  assumes "''FFMC'' \<in> set (columns (objs h dframe))"
  shows "outlier_removal dframe threshold h =
     Inr (alloc (drop_labels
       (map fst (filter (\<lambda>r. float_gt (snd r ''FFMC'') threshold) (rows (objs h dframe))))
       (objs h dframe)) h)"
  using assms masked_labels[of "rows (objs h dframe)" "\<lambda>r. float_gt (snd r ''FFMC'') threshold"]
  by (simp add: outlier_removal_def getitem_def bind_err_def Let_def comp_def)

lemma drop_labels_no_masked:
  "r \<in> set (rows (drop_labels (map fst (filter f (rows df))) df)) \<Longrightarrow> \<not> f r"
  by (auto simp: drop_labels_def)

lemma drop_labels_filter:
  assumes "distinct (index df)"
  shows "rows (drop_labels (map fst (filter f (rows df))) df) = filter (\<lambda>r. \<not> f r) (rows df)"
proof -
  have inj: "inj_on fst (set (rows df))"
    using assms by (simp add: index_def distinct_map)
  have *: "fst r \<notin> set (map fst (filter f (rows df))) \<longleftrightarrow> \<not> f r" if "r \<in> set (rows df)" for r
    using that inj by (auto simp: inj_on_def)
  have "filter (\<lambda>r. fst r \<notin> set (map fst (filter f (rows df)))) (rows df) =
      filter (\<lambda>r. \<not> f r) (rows df)"
    by (rule filter_cong[OF refl]) (rule *)
  then show ?thesis
    by (simp add: drop_labels_def)
qed

text \<open>
  C6. On a frame with an FFMC column, \<open>outlier_removal\<close> returns a frame with the same
  columns in which no row has an FFMC above the threshold; its rows are rows of the input,
  and with distinct labels they are exactly the rows of the input whose FFMC is not above
  the threshold, in order: a row whose FFMC equals the threshold stays.
\<close>

theorem outlier_removal_threshold:
  assumes "''FFMC'' \<in> set (columns (objs h dframe))"
  shows "\<exists>ref h'. outlier_removal dframe threshold h = Inr (ref, h')
    \<and> columns (objs h' ref) = columns (objs h dframe)
    \<and> (\<forall>r\<in>set (rows (objs h' ref)). \<not> float_gt (snd r ''FFMC'') threshold)
    \<and> set (rows (objs h' ref)) \<subseteq> set (rows (objs h dframe))
    \<and> (distinct (index (objs h dframe)) \<longrightarrow>
         rows (objs h' ref) =
           filter (\<lambda>r. \<not> float_gt (snd r ''FFMC'') threshold) (rows (objs h dframe)))"
proof -
  define out where "out = drop_labels
       (map fst (filter (\<lambda>r. float_gt (snd r ''FFMC'') threshold) (rows (objs h dframe))))
       (objs h dframe)"
  have eq: "outlier_removal dframe threshold h = Inr (next_id h, snd (alloc out h))"
    using outlier_removal_eq[OF assms] by (simp add: out_def alloc_def)
  have at: "objs (snd (alloc out h)) (next_id h) = out" by (simp add: alloc_def)
  have c: "columns out = columns (objs h dframe)" by (simp add: out_def drop_labels_def)
  have a: "\<forall>r\<in>set (rows out). \<not> float_gt (snd r ''FFMC'') threshold"
    unfolding out_def using drop_labels_no_masked by blast
  have s: "set (rows out) \<subseteq> set (rows (objs h dframe))"
    by (auto simp: out_def drop_labels_def)
  have f: "distinct (index (objs h dframe)) \<longrightarrow>
         rows out = filter (\<lambda>r. \<not> float_gt (snd r ''FFMC'') threshold) (rows (objs h dframe))"
    unfolding out_def using drop_labels_filter by blast
  show ?thesis
    apply (rule exI[of _ "next_id h"], rule exI[of _ "snd (alloc out h)"])
    unfolding at using eq c a s f by blast
qed

theorem outlier_removal_threshold_witness:
  "map_sum id (rows \<circ> deref) (outlier_removal 0 120 six_rows_store) =
     Inr [(0, mk_row (Some 90) (Some 100) (Some 0)),
          (2, mk_row (Some 120) None (Some 2)),
          (3, mk_row (Some 85) (Some 300) None),
          (4, mk_row (Some 90) (Some 100) (Some 0)),
          (5, mk_row (Some 70) (Some 400) (Some 1))]"
proof -
  have c: "''FFMC'' \<in> set (columns (objs six_rows_store 0))"
    by (simp add: six_rows_store_def six_rows_def)
  have d: "distinct (index (objs six_rows_store 0))"
    by (simp add: six_rows_store_def six_rows_def index_def)
  have r: "filter (\<lambda>r. \<not> float_gt (snd r ''FFMC'') 120) (rows (objs six_rows_store 0)) =
     [(0, mk_row (Some 90) (Some 100) (Some 0)),
          (2, mk_row (Some 120) None (Some 2)),
          (3, mk_row (Some 85) (Some 300) None),
          (4, mk_row (Some 90) (Some 100) (Some 0)),
          (5, mk_row (Some 70) (Some 400) (Some 1))]"
    by (simp add: six_rows_store_def six_rows_def float_gt_def mk_row_def)
  from outlier_removal_threshold[OF c, of 120] d r show ?thesis by (auto simp: deref_def)
qed

section \<open>The engineered column\<close>

lemma zip_map_self: "zip xs (map f xs) = map (\<lambda>x. (x, f x)) xs"
  by (induction xs) auto

lemma series_where_rows:
  "series_where (map f rs) (map (\<lambda>x. cond x) (map f rs)) other =
     map (\<lambda>r. if cond (f r) then f r else other) rs"
  by (induction rs) (auto simp: series_where_def)

lemma setitem_map:
  "setitem c (map g (rows df)) df =
     Inr \<lparr>columns = (if c \<in> set (columns df) then columns df else columns df @ [c]),
          rows = map (\<lambda>r. (fst r, (snd r)(c := g r))) (rows df)\<rparr>"
  by (simp add: setitem_def zip_map_self comp_def)

lemma add_did_it_rain_eq:
  assumes "''rain'' \<in> set (columns (objs h dframe))"
  shows "add_did_it_rain dframe h =
     Inr (dframe, mutate dframe
       \<lparr>columns = (if ''did_it_rain'' \<in> set (columns (objs h dframe)) then columns (objs h dframe)
                   else columns (objs h dframe) @ [''did_it_rain'']),
        rows = map (\<lambda>r. (fst r, (snd r)(''did_it_rain'' :=
                     (if snd r ''rain'' = Some 0 then Some 0 else Some 1))))
                 (rows (objs h dframe))\<rparr> h)"
proof -
  have kept: "(\<lambda>r::nat \<times> (string \<Rightarrow> float). if snd r ''rain'' = Some 0 then snd r ''rain'' else Some 1) =
      (\<lambda>r. if snd r ''rain'' = Some 0 then Some 0 else Some 1)"
    by (rule ext) simp
  show ?thesis
    using assms
      series_where_rows[of "\<lambda>r. snd r ''rain''" "rows (objs h dframe)" "\<lambda>x. x = Some 0" "Some 1"]
      setitem_map[of "''did_it_rain''"
        "\<lambda>r. if snd r ''rain'' = Some 0 then Some 0 else Some 1" "objs h dframe"]
    by (simp add: add_did_it_rain_def getitem_def bind_err_def kept)
qed

text \<open>
  C9. On a frame with a rain column, \<open>add_did_it_rain\<close> returns the frame it was given,
  now with a column \<open>did_it_rain\<close> that is 0 in the rows whose rain equals 0.0 and 1 in all
  other rows; the labels, the order of the rows and the value of every other column in
  every row are as before.
\<close>

theorem add_did_it_rain_indicator:
  assumes "''rain'' \<in> set (columns (objs h dframe))"
  shows "\<exists>h'. add_did_it_rain dframe h = Inr (dframe, h')
    \<and> set (columns (objs h' dframe)) = insert ''did_it_rain'' (set (columns (objs h dframe)))
    \<and> rows (objs h' dframe) =
        map (\<lambda>r. (fst r, (snd r)(''did_it_rain'' :=
                     (if snd r ''rain'' = Some 0 then Some 0 else Some 1))))
          (rows (objs h dframe))
    \<and> length (rows (objs h' dframe)) = length (rows (objs h dframe))
    \<and> (\<forall>i<length (rows (objs h dframe)).
          snd (rows (objs h' dframe) ! i) ''did_it_rain'' =
            (if snd (rows (objs h dframe) ! i) ''rain'' = Some 0 then Some 0 else Some 1)
        \<and> (\<forall>c. c \<noteq> ''did_it_rain'' \<longrightarrow>
              snd (rows (objs h' dframe) ! i) c = snd (rows (objs h dframe) ! i) c))"
proof -
  define df' where "df' =
       \<lparr>columns = (if ''did_it_rain'' \<in> set (columns (objs h dframe)) then columns (objs h dframe)
                   else columns (objs h dframe) @ [''did_it_rain'']),
        rows = map (\<lambda>r. (fst r, (snd r)(''did_it_rain'' :=
                     (if snd r ''rain'' = Some 0 then Some 0 else Some 1))))
                 (rows (objs h dframe))\<rparr>"
  have eq: "add_did_it_rain dframe h = Inr (dframe, mutate dframe df' h)"
    unfolding df'_def by (rule add_did_it_rain_eq[OF assms])
  have at: "objs (mutate dframe df' h) dframe = df'" by (simp add: mutate_def)
  show ?thesis
    apply (rule exI[of _ "mutate dframe df' h"])
    unfolding at using eq by (auto simp: df'_def)
qed

theorem add_did_it_rain_indicator_witness:
  "map_sum id (map (\<lambda>r. snd r ''did_it_rain'') \<circ> rows \<circ> deref) (add_did_it_rain 0 six_rows_store) =
     Inr [Some 0, Some 0, Some 1, Some 1, Some 0, Some 1]
   \<and> map_sum id (map (\<lambda>r. snd r ''FFMC'') \<circ> rows \<circ> deref) (add_did_it_rain 0 six_rows_store) =
     Inr [Some 90, Some 121, Some 120, Some 85, Some 90, Some 70]"
proof -
  have c: "''rain'' \<in> set (columns (objs six_rows_store 0))"
    by (simp add: six_rows_store_def six_rows_def)
  from add_did_it_rain_indicator[OF c] obtain h' where
    h': "add_did_it_rain 0 six_rows_store = Inr (0, h')"
    and r: "rows (objs h' 0) =
        map (\<lambda>r. (fst r, (snd r)(''did_it_rain'' :=
                     (if snd r ''rain'' = Some 0 then Some 0 else Some 1))))
          (rows (objs six_rows_store 0))"
    by blast
  show ?thesis
    unfolding h' by (simp add: deref_def r six_rows_store_def six_rows_def mk_row_def)
qed

section \<open>The store\<close>

lemma mutate_objs: "objs (mutate ref df h) ref' = (if ref' = ref then df else objs h ref')"
  by (simp add: mutate_def)

lemma alloc_objs:
  "objs (snd (alloc df h)) ref' = (if ref' = next_id h then df else objs h ref')"
  by (simp add: alloc_def)

section \<open>The preparation cells, cell by cell\<close>

lemma ravel_singletons: "ravel (map (\<lambda>x. [f x]) xs) = map f xs"
  by (induction xs) (auto simp: ravel_def)

lemma ravel_empties: "ravel (map (\<lambda>x. []) xs) = []"
  by (induction xs) (auto simp: ravel_def)

lemma setitem_dc:
  assumes "''DC'' \<in> set (columns df)"
  shows "setitem ''DC'' (map g (dc_values (rows df))) df =
     Inr (df\<lparr>rows := map (update_dc g) (rows df)\<rparr>)"
proof -
  have "setitem ''DC'' (map (\<lambda>r. g (snd r ''DC'')) (rows df)) df =
     Inr \<lparr>columns = (if ''DC'' \<in> set (columns df) then columns df else columns df @ [''DC'']),
          rows = map (\<lambda>r. (fst r, (snd r)(''DC'' := g (snd r ''DC'')))) (rows df)\<rparr>"
    by (rule setitem_map)
  then show ?thesis
    using assms by (simp add: dc_values_def update_dc_def comp_def)
qed

lemma getitem_dc:
  "getitem df ''DC'' = (if ''DC'' \<in> set (columns df) then Inr (dc_values (rows df)) else Inl KeyError)"
  by (simp add: getitem_def dc_values_def)

lemma imp_transform_fitted:
  "X \<noteq> [] \<Longrightarrow> imp_transform \<lparr>statistics = Some (Some m)\<rparr> X = Inr (map (\<lambda>x. [impute_value m x]) X)"
  by (simp add: imp_transform_def)

lemma cell_impute_train_Inr:
  assumes "cell_impute_train nb = Inr nb1"
  shows "''DC'' \<in> set (columns (objs (store nb) (df_train nb)))
    \<and> (\<exists>m. np_mean (observed (dc_values (rows (objs (store nb) (df_train nb))))) = Some m
          \<and> nb1 = nb\<lparr>store := mutate (df_train nb)
                 ((objs (store nb) (df_train nb))
                    \<lparr>rows := map (update_dc (impute_value m)) (rows (objs (store nb) (df_train nb)))\<rparr>)
                 (store nb),
               imp := \<lparr>statistics = Some (Some m)\<rparr>\<rparr>)"
proof -
  define tr where "tr = objs (store nb) (df_train nb)"
  define X where "X = dc_values (rows tr)"
  have dc: "''DC'' \<in> set (columns tr)"
    using assms by (auto simp: cell_impute_train_def getitem_dc bind_err_def tr_def split: if_splits)
  then have g: "getitem tr ''DC'' = Inr X" by (simp add: getitem_dc X_def)
  have ne: "X \<noteq> []"
    using assms g by (auto simp: cell_impute_train_def bind_err_def tr_def imp_fit_def split: if_splits)
  then have fit: "imp_fit Imputer X = Inr \<lparr>statistics = Some (np_mean (observed X))\<rparr>"
    by (simp add: imp_fit_def Imputer_def)
  have len: "length X = length (rows tr)" by (simp add: X_def dc_values_def)
  show ?thesis
  proof (cases "np_mean (observed X)")
    case None
    have "imp_transform \<lparr>statistics = Some None\<rparr> X = Inr (map (\<lambda>x. []) X)"
      using ne by (simp add: imp_transform_def)
    moreover have "setitem ''DC'' [] tr = Inl ValueError"
      using ne len by (auto simp: setitem_def)
    ultimately have "cell_impute_train nb = Inl ValueError"
      using g fit None
      by (simp add: cell_impute_train_def bind_err_def tr_def[symmetric] ravel_empties)
    with assms show ?thesis by simp
  next
    case (Some m)
    have "cell_impute_train nb =
        Inr (nb\<lparr>store := mutate (df_train nb) (tr\<lparr>rows := map (update_dc (impute_value m)) (rows tr)\<rparr>) (store nb),
               imp := \<lparr>statistics = Some (Some m)\<rparr>\<rparr>)"
      using g fit Some imp_transform_fitted[OF ne, of m] setitem_dc[OF dc, of "impute_value m"]
      by (simp add: cell_impute_train_def bind_err_def tr_def[symmetric] ravel_singletons
          X_def[symmetric])
    with assms dc Some show ?thesis
      unfolding tr_def X_def by auto
  qed
qed

lemma cell_dropna_train_eq:
  "cell_dropna_train nb =
     Inr (nb\<lparr>store := mutate (df_train nb)
            ((objs (store nb) (df_train nb))
               \<lparr>rows := filter (\<lambda>r. \<not> has_nan (columns (objs (store nb) (df_train nb))) r)
                         (rows (objs (store nb) (df_train nb)))\<rparr>)
            (store nb)\<rparr>)"
  by (simp add: cell_dropna_train_def dropna_def)

lemma cell_outliers_train_Inr:
  assumes "cell_outliers_train nb = Inr nb1"
  shows "imp nb1 = imp nb \<and> normalizer nb1 = normalizer nb \<and> df_test nb1 = df_test nb
    \<and> columns (objs (store nb1) (df_train nb1)) = columns (objs (store nb) (df_train nb))
    \<and> (distinct (index (objs (store nb) (df_train nb))) \<longrightarrow>
          rows (objs (store nb1) (df_train nb1)) =
            filter (\<lambda>r. \<not> float_gt (snd r ''FFMC'') 120) (rows (objs (store nb) (df_train nb))))"
proof -
  have c: "''FFMC'' \<in> set (columns (objs (store nb) (df_train nb)))"
    using assms
    by (auto simp: cell_outliers_train_def outlier_removal_def getitem_def bind_err_def
        split: if_splits)
  define out where "out = drop_labels
       (map fst (filter (\<lambda>r. float_gt (snd r ''FFMC'') 120) (rows (objs (store nb) (df_train nb)))))
       (objs (store nb) (df_train nb))"
  have o: "outlier_removal (df_train nb) 120 (store nb) = Inr (alloc out (store nb))"
    unfolding out_def by (rule outlier_removal_eq[OF c])
  have nb1: "nb1 = nb\<lparr>store := snd (alloc out (store nb)), df_train := next_id (store nb)\<rparr>"
    using assms o by (simp add: cell_outliers_train_def bind_err_def alloc_def)
  have at: "objs (store nb1) (df_train nb1) = out" by (simp add: nb1 alloc_def)
  have p: "columns out = columns (objs (store nb) (df_train nb))"
      "distinct (index (objs (store nb) (df_train nb))) \<longrightarrow>
         rows out =
           filter (\<lambda>r. \<not> float_gt (snd r ''FFMC'') 120) (rows (objs (store nb) (df_train nb)))"
    unfolding out_def using drop_labels_filter by (simp add: drop_labels_def, blast)
  show ?thesis unfolding at using p by (simp add: nb1)
qed

lemma observed_nonempty: "observed X \<noteq> [] \<Longrightarrow> X \<noteq> []"
  by auto

lemma scaler_fit_params:
  "X \<noteq> [] \<Longrightarrow> \<exists>mean scale. scaler_fit fm StandardScaler X = Inr \<lparr>params = Some (mean, scale)\<rparr>"
  by (simp add: scaler_fit_def StandardScaler_def Let_def)

lemma scaler_fit_observed:
  assumes "observed X \<noteq> []"
  shows "scaler_fit fm StandardScaler X =
     Inr \<lparr>params = Some (Some (fst (fm (observed X))),
                           Some (handle_zeros_in_scale (snd (fm (observed X)))))\<rparr>"
  using assms by (auto simp: scaler_fit_def StandardScaler_def Let_def)

lemma scaler_transform_fitted:
  "X \<noteq> [] \<Longrightarrow>
   scaler_transform \<lparr>params = Some (mean, scale)\<rparr> X = Inr (map (\<lambda>x. [standardize mean scale x]) X)"
  by (simp add: scaler_transform_def)

lemma cell_normalize_train_Inr:
  assumes "cell_normalize_train fm nb = Inr nb1"
  shows "scaler_fit fm StandardScaler (dc_values (rows (objs (store nb) (df_train nb)))) =
      Inr (normalizer nb1)
    \<and> imp nb1 = imp nb \<and> df_test nb1 = df_test nb \<and> df_train nb1 = df_train nb
    \<and> (\<exists>mean scale. params (normalizer nb1) = Some (mean, scale)
          \<and> objs (store nb1) (df_train nb1) =
              (objs (store nb) (df_train nb))
                \<lparr>rows := map (update_dc (standardize mean scale))
                           (rows (objs (store nb) (df_train nb)))\<rparr>)"
proof -
  define tr where "tr = objs (store nb) (df_train nb)"
  define X where "X = dc_values (rows tr)"
  have dc: "''DC'' \<in> set (columns tr)"
    using assms
    by (auto simp: cell_normalize_train_def getitem_dc bind_err_def tr_def split: if_splits)
  then have g: "getitem tr ''DC'' = Inr X" by (simp add: getitem_dc X_def)
  have ne: "X \<noteq> []"
    using assms g
    by (auto simp: cell_normalize_train_def bind_err_def tr_def scaler_fit_def split: if_splits)
  from scaler_fit_params[OF ne] obtain mean scale where
    fit: "scaler_fit fm StandardScaler X = Inr \<lparr>params = Some (mean, scale)\<rparr>" by blast
  have "cell_normalize_train fm nb =
      Inr (nb\<lparr>store := mutate (df_train nb)
                 (tr\<lparr>rows := map (update_dc (standardize mean scale)) (rows tr)\<rparr>) (store nb),
             normalizer := \<lparr>params = Some (mean, scale)\<rparr>\<rparr>)"
    using g fit scaler_transform_fitted[OF ne, of mean scale]
      setitem_dc[OF dc, of "standardize mean scale"]
    by (simp add: cell_normalize_train_def bind_err_def tr_def[symmetric] ravel_singletons
        X_def[symmetric])
  with assms have "nb1 = nb\<lparr>store := mutate (df_train nb)
                 (tr\<lparr>rows := map (update_dc (standardize mean scale)) (rows tr)\<rparr>) (store nb),
             normalizer := \<lparr>params = Some (mean, scale)\<rparr>\<rparr>"
    by simp
  then show ?thesis
    using fit by (simp add: tr_def X_def mutate_def)
qed

lemma cell_rain_train_Inr:
  assumes "cell_rain_train nb = Inr nb1"
  shows "imp nb1 = imp nb \<and> normalizer nb1 = normalizer nb \<and> df_test nb1 = df_test nb"
  using assms by (auto simp: cell_rain_train_def bind_err_def split: sum.splits)

lemma prepare_test_Inr:
  assumes "prepare_test nb = Inr nb2"
  shows "imp nb2 = imp nb \<and> normalizer nb2 = normalizer nb \<and> df_train nb2 = df_train nb"
  using assms
  by (auto simp: prepare_test_def bind_err_def Let_def split: sum.splits)

lemma index_update_dc: "map fst (map (update_dc g) rs) = map fst rs"
  by (simp add: update_dc_def comp_def)

lemma distinct_index_cleaning:
  "distinct (map fst rs) \<Longrightarrow> distinct (map fst (filter P (map (update_dc g) rs)))"
proof -
  assume "distinct (map fst rs)"
  then have "distinct (map fst (map (update_dc g) rs))" by (simp only: index_update_dc)
  then show ?thesis by (rule distinct_map_filter)
qed

lemma no_nan_dc:
  "''DC'' \<in> set cols \<Longrightarrow> \<not> has_nan cols r \<Longrightarrow> snd r ''DC'' \<noteq> None"
  by (auto simp: has_nan_def list_ex_iff)

lemma observed_all_Some: "\<forall>x\<in>set X. x \<noteq> None \<Longrightarrow> X \<noteq> [] \<Longrightarrow> observed X \<noteq> []"
  by (cases X) auto

lemma cleaned_rows_observed:
  assumes "''DC'' \<in> set cols" and "dc_values (cleaned_rows m cols rs) \<noteq> []"
  shows "observed (dc_values (cleaned_rows m cols rs)) \<noteq> []"
proof (rule observed_all_Some[OF _ assms(2)])
  show "\<forall>x\<in>set (dc_values (cleaned_rows m cols rs)). x \<noteq> None"
    using no_nan_dc[OF assms(1)] by (auto simp: dc_values_def cleaned_rows_def)
qed

lemma prepare_train_Inr:
  assumes run: "prepare_train fm nb = Inr nb'"
    and dist: "distinct (index (objs (store nb) (df_train nb)))"
  shows "\<exists>m. np_mean (observed (dc_values (rows (objs (store nb) (df_train nb))))) = Some m
      \<and> imp nb' = \<lparr>statistics = Some (Some m)\<rparr>
      \<and> scaler_fit fm StandardScaler
            (dc_values (cleaned_rows m (columns (objs (store nb) (df_train nb)))
                          (rows (objs (store nb) (df_train nb))))) = Inr (normalizer nb')
      \<and> ''DC'' \<in> set (columns (objs (store nb) (df_train nb)))
      \<and> df_test nb' = df_test nb"
proof -
  define tr where "tr = objs (store nb) (df_train nb)"
  from run obtain nb1 nb2 nb3 nb4 where
    c1: "cell_impute_train nb = Inr nb1" and c2: "cell_dropna_train nb1 = Inr nb2"
    and c3: "cell_outliers_train nb2 = Inr nb3" and c4: "cell_normalize_train fm nb3 = Inr nb4"
    and c5: "cell_rain_train nb4 = Inr nb'"
    by (auto simp: prepare_train_def bind_err_def split: sum.splits)
  from cell_impute_train_Inr[OF c1] obtain m where
    dc: "''DC'' \<in> set (columns tr)"
    and m: "np_mean (observed (dc_values (rows tr))) = Some m"
    and nb1: "nb1 = nb\<lparr>store := mutate (df_train nb)
                 (tr\<lparr>rows := map (update_dc (impute_value m)) (rows tr)\<rparr>) (store nb),
               imp := \<lparr>statistics = Some (Some m)\<rparr>\<rparr>"
    unfolding tr_def by blast
  have t1: "objs (store nb1) (df_train nb1) = tr\<lparr>rows := map (update_dc (impute_value m)) (rows tr)\<rparr>"
    by (simp add: nb1 mutate_def)
  have nb2: "nb2 = nb1\<lparr>store := mutate (df_train nb1)
                 (tr\<lparr>rows := filter (\<lambda>r. \<not> has_nan (columns tr) r)
                     (map (update_dc (impute_value m)) (rows tr))\<rparr>) (store nb1)\<rparr>"
    using c2 unfolding cell_dropna_train_eq t1 by simp
  have t2: "objs (store nb2) (df_train nb2) =
      tr\<lparr>rows := filter (\<lambda>r. \<not> has_nan (columns tr) r) (map (update_dc (impute_value m)) (rows tr))\<rparr>"
    by (simp add: nb2 mutate_def)
  have d2: "distinct (index (objs (store nb2) (df_train nb2)))"
    unfolding t2 using dist distinct_index_cleaning[of "rows tr"]
    by (simp add: index_def tr_def)
  from cell_outliers_train_Inr[OF c3] d2 have
    t3: "rows (objs (store nb3) (df_train nb3)) = cleaned_rows m (columns tr) (rows tr)"
    and i3: "imp nb3 = imp nb2" "df_test nb3 = df_test nb2"
    unfolding t2 by (simp_all add: cleaned_rows_def)
  from cell_normalize_train_Inr[OF c4] have
    f: "scaler_fit fm StandardScaler (dc_values (cleaned_rows m (columns tr) (rows tr))) =
      Inr (normalizer nb4)"
    and i4: "imp nb4 = imp nb3" "df_test nb4 = df_test nb3"
    unfolding t3 by simp_all
  from cell_rain_train_Inr[OF c5] have
    i5: "imp nb' = imp nb4" "normalizer nb' = normalizer nb4" "df_test nb' = df_test nb4"
    by simp_all
  have "imp nb' = \<lparr>statistics = Some (Some m)\<rparr>" "df_test nb' = df_test nb"
    using i5 i4 i3 by (simp_all add: nb2 nb1)
  with m f dc i5(2) show ?thesis unfolding tr_def by auto
qed

lemma getitem_Inr_column: "getitem df c = Inr X \<Longrightarrow> c \<in> set (columns df)"
  by (auto simp: getitem_def split: if_splits)

lemma outlier_removal_Inr_column:
  "outlier_removal dframe threshold h = Inr res \<Longrightarrow> ''FFMC'' \<in> set (columns (objs h dframe))"
  by (auto simp: outlier_removal_def getitem_def bind_err_def split: if_splits)

lemma add_did_it_rain_Inr_column:
  "add_did_it_rain dframe h = Inr res \<Longrightarrow> ''rain'' \<in> set (columns (objs h dframe))"
  by (auto simp: add_did_it_rain_def getitem_def bind_err_def split: if_splits)

lemma imp_transform_Inr_nonempty: "imp_transform fitted X = Inr Y \<Longrightarrow> X \<noteq> []"
  by (auto simp: imp_transform_def split: option.splits if_splits)

lemma scaler_transform_Inr_nonempty: "scaler_transform sc X = Inr Y \<Longrightarrow> X \<noteq> []"
  by (auto simp: scaler_transform_def split: option.splits if_splits)

lemma prepare_test_rows:
  assumes run: "prepare_test nb = Inr nb2"
    and fitted: "imp nb = \<lparr>statistics = Some (Some m)\<rparr>"
      "normalizer nb = \<lparr>params = Some (mean, scale)\<rparr>"
    and dist: "distinct (index (objs (store nb) (df_test nb)))"
  shows "rows (objs (store nb2) (df_test nb2)) =
     map (\<lambda>r. (fst r, (snd r)(''did_it_rain'' :=
                  (if snd r ''rain'' = Some 0 then Some 0 else Some 1))))
       (map (update_dc (standardize mean scale))
          (cleaned_rows m (columns (objs (store nb) (df_test nb)))
             (rows (objs (store nb) (df_test nb)))))"
proof -
  define a where "a = df_test nb"
  define te where "te = objs (store nb) a"
  from run obtain X Y df1 ref h2 X' Y' df2 ref' h3 where
    s1: "getitem te ''DC'' = Inr X"
    and s2: "imp_transform (imp nb) X = Inr Y"
    and s3: "setitem ''DC'' (ravel Y) te = Inr df1"
    and s4: "outlier_removal a 120 (dropna a (mutate a df1 (store nb))) = Inr (ref, h2)"
    and s5: "getitem (objs h2 ref) ''DC'' = Inr X'"
    and s6: "scaler_transform (normalizer nb) X' = Inr Y'"
    and s7: "setitem ''DC'' (ravel Y') (objs h2 ref) = Inr df2"
    and s8: "add_did_it_rain ref (mutate ref df2 h2) = Inr (ref', h3)"
    and s9: "nb2 = nb\<lparr>store := h3, df_test := ref'\<rparr>"
    unfolding prepare_test_def Let_def te_def[symmetric] a_def[symmetric]
    by (auto simp: bind_err_def split: sum.splits)
  have dc: "''DC'' \<in> set (columns te)" by (rule getitem_Inr_column[OF s1])
  have X: "X = dc_values (rows te)" using s1 dc by (simp add: getitem_dc)
  have Y: "Y = map (\<lambda>x. [impute_value m x]) X"
    using s2 imp_transform_fitted[OF imp_transform_Inr_nonempty[OF s2], of m]
    by (simp add: fitted)
  have df1: "df1 = te\<lparr>rows := map (update_dc (impute_value m)) (rows te)\<rparr>"
    using s3 setitem_dc[OF dc, of "impute_value m"] by (simp add: Y X ravel_singletons)
  define T2 where "T2 = te\<lparr>rows := filter (\<lambda>r. \<not> has_nan (columns te) r)
        (map (update_dc (impute_value m)) (rows te))\<rparr>"
  have h1: "objs (dropna a (mutate a df1 (store nb))) a = T2"
    by (simp add: dropna_def mutate_def df1 T2_def)
  have d2: "distinct (index T2)"
    using dist distinct_index_cleaning[of "rows te"] by (simp add: index_def T2_def te_def a_def)
  define out where "out = drop_labels
       (map fst (filter (\<lambda>r. float_gt (snd r ''FFMC'') 120) (rows T2))) T2"
  have "''FFMC'' \<in> set (columns (objs (dropna a (mutate a df1 (store nb))) a))"
    by (rule outlier_removal_Inr_column[OF s4])
  from outlier_removal_eq[OF this, of 120] s4
  have o: "objs h2 ref = out"
    unfolding h1 out_def[symmetric] by (auto simp: alloc_def)
  have rout: "rows out = cleaned_rows m (columns te) (rows te)"
    unfolding out_def drop_labels_filter[OF d2] by (simp add: T2_def cleaned_rows_def)
  have cout: "''DC'' \<in> set (columns out)" using s5 o getitem_Inr_column by metis
  have X': "X' = dc_values (rows out)" using s5 cout by (simp add: o getitem_dc)
  have Y': "Y' = map (\<lambda>x. [standardize mean scale x]) X'"
    using s6 scaler_transform_fitted[OF scaler_transform_Inr_nonempty[OF s6], of mean scale]
    by (simp add: fitted)
  have df2: "df2 = out\<lparr>rows := map (update_dc (standardize mean scale)) (rows out)\<rparr>"
    using s7 setitem_dc[OF cout, of "standardize mean scale"]
    by (simp add: o Y' X' ravel_singletons)
  have at: "objs (mutate ref df2 h2) ref = df2" by (simp add: mutate_def)
  have "''rain'' \<in> set (columns (objs (mutate ref df2 h2) ref))"
    by (rule add_did_it_rain_Inr_column[OF s8])
  from add_did_it_rain_eq[OF this] s8
  have "ref' = ref" and "rows (objs h3 ref) =
      map (\<lambda>r. (fst r, (snd r)(''did_it_rain'' :=
                  (if snd r ''rain'' = Some 0 then Some 0 else Some 1)))) (rows df2)"
    unfolding at by (auto simp: mutate_def)
  then show ?thesis
    by (simp add: s9 df2 rout te_def a_def)
qed

section \<open>The training cells return\<close>

lemma cell_impute_train_total:
  assumes dc: "''DC'' \<in> set (columns (objs (store nb) (df_train nb)))"
    and obs: "observed (dc_values (rows (objs (store nb) (df_train nb)))) \<noteq> []"
  shows "\<exists>nb1. cell_impute_train nb = Inr nb1"
proof -
  define tr where "tr = objs (store nb) (df_train nb)"
  define X where "X = dc_values (rows tr)"
  have g: "getitem tr ''DC'' = Inr X" using dc by (simp add: getitem_dc X_def tr_def)
  have ne: "X \<noteq> []" using obs by (auto simp: X_def tr_def)
  obtain m where m: "np_mean (observed X) = Some m"
    using obs by (simp add: np_mean_def X_def tr_def)
  have fit: "imp_fit Imputer X = Inr \<lparr>statistics = Some (Some m)\<rparr>"
    using ne m by (simp add: imp_fit_def Imputer_def)
  have "cell_impute_train nb =
        Inr (nb\<lparr>store := mutate (df_train nb) (tr\<lparr>rows := map (update_dc (impute_value m)) (rows tr)\<rparr>) (store nb),
               imp := \<lparr>statistics = Some (Some m)\<rparr>\<rparr>)"
    using g fit imp_transform_fitted[OF ne, of m] setitem_dc[of tr "impute_value m"] dc
    by (simp add: cell_impute_train_def bind_err_def tr_def[symmetric] ravel_singletons
        X_def[symmetric])
  then show ?thesis by blast
qed

lemma cell_outliers_train_total:
  assumes "''FFMC'' \<in> set (columns (objs (store nb) (df_train nb)))"
  shows "\<exists>nb1. cell_outliers_train nb = Inr nb1"
  using outlier_removal_eq[OF assms, of 120]
  by (simp add: cell_outliers_train_def bind_err_def alloc_def)

lemma cell_normalize_train_total:
  assumes dc: "''DC'' \<in> set (columns (objs (store nb) (df_train nb)))"
    and ne: "rows (objs (store nb) (df_train nb)) \<noteq> []"
  shows "\<exists>nb1. cell_normalize_train fm nb = Inr nb1"
proof -
  define tr where "tr = objs (store nb) (df_train nb)"
  define X where "X = dc_values (rows tr)"
  have g: "getitem tr ''DC'' = Inr X" using dc by (simp add: getitem_dc X_def tr_def)
  have ne: "X \<noteq> []" using ne by (simp add: X_def tr_def dc_values_def)
  from scaler_fit_params[OF ne] obtain mean scale where
    fit: "scaler_fit fm StandardScaler X = Inr \<lparr>params = Some (mean, scale)\<rparr>" by blast
  have "cell_normalize_train fm nb =
      Inr (nb\<lparr>store := mutate (df_train nb)
                 (tr\<lparr>rows := map (update_dc (standardize mean scale)) (rows tr)\<rparr>) (store nb),
             normalizer := \<lparr>params = Some (mean, scale)\<rparr>\<rparr>)"
    using g fit scaler_transform_fitted[OF ne, of mean scale]
      setitem_dc[of tr "standardize mean scale"] dc
    by (simp add: cell_normalize_train_def bind_err_def tr_def[symmetric] ravel_singletons
        X_def[symmetric])
  then show ?thesis by blast
qed

lemma cell_rain_train_total:
  assumes "''rain'' \<in> set (columns (objs (store nb) (df_train nb)))"
  shows "\<exists>nb1. cell_rain_train nb = Inr nb1"
  using add_did_it_rain_eq[OF assms]
  by (simp add: cell_rain_train_def bind_err_def)

section \<open>What the training cells leave untouched\<close>

lemma cell_impute_train_frame:
  assumes "cell_impute_train nb = Inr nb1"
  shows "df_train nb1 = df_train nb \<and> df_test nb1 = df_test nb
    \<and> next_id (store nb1) = next_id (store nb)
    \<and> (\<forall>ref. ref \<noteq> df_train nb \<longrightarrow> objs (store nb1) ref = objs (store nb) ref)"
  using cell_impute_train_Inr[OF assms] by (auto simp: mutate_def)

lemma cell_dropna_train_frame:
  assumes "cell_dropna_train nb = Inr nb1"
  shows "df_train nb1 = df_train nb \<and> df_test nb1 = df_test nb
    \<and> next_id (store nb1) = next_id (store nb)
    \<and> imp nb1 = imp nb \<and> normalizer nb1 = normalizer nb
    \<and> (\<forall>ref. ref \<noteq> df_train nb \<longrightarrow> objs (store nb1) ref = objs (store nb) ref)"
  using assms by (auto simp: cell_dropna_train_def dropna_def mutate_def)

lemma cell_outliers_train_frame:
  assumes "cell_outliers_train nb = Inr nb1"
  shows "df_train nb1 = next_id (store nb) \<and> df_test nb1 = df_test nb
    \<and> next_id (store nb1) = Suc (next_id (store nb))
    \<and> (\<forall>ref. ref \<noteq> next_id (store nb) \<longrightarrow> objs (store nb1) ref = objs (store nb) ref)"
  using assms
  by (auto simp: cell_outliers_train_def outlier_removal_def bind_err_def alloc_def Let_def
      split: sum.splits)

lemma cell_normalize_train_frame:
  assumes "cell_normalize_train fm nb = Inr nb1"
  shows "df_train nb1 = df_train nb \<and> df_test nb1 = df_test nb
    \<and> next_id (store nb1) = next_id (store nb)
    \<and> (\<forall>ref. ref \<noteq> df_train nb \<longrightarrow> objs (store nb1) ref = objs (store nb) ref)"
  using assms
  by (auto simp: cell_normalize_train_def bind_err_def mutate_def split: sum.splits)

lemma cell_rain_train_frame:
  assumes "cell_rain_train nb = Inr nb1"
  shows "df_train nb1 = df_train nb \<and> df_test nb1 = df_test nb
    \<and> next_id (store nb1) = next_id (store nb)
    \<and> (\<forall>ref. ref \<noteq> df_train nb \<longrightarrow> objs (store nb1) ref = objs (store nb) ref)"
  using assms
  by (auto simp: cell_rain_train_def add_did_it_rain_def bind_err_def mutate_def
      split: sum.splits)

lemma prepare_train_frame:
  assumes run: "prepare_train fm nb = Inr nb'"
    and ref: "ref \<noteq> df_train nb" "ref < next_id (store nb)"
  shows "objs (store nb') ref = objs (store nb) ref"
proof -
  from run obtain nb1 nb2 nb3 nb4 where
    c1: "cell_impute_train nb = Inr nb1" and c2: "cell_dropna_train nb1 = Inr nb2"
    and c3: "cell_outliers_train nb2 = Inr nb3" and c4: "cell_normalize_train fm nb3 = Inr nb4"
    and c5: "cell_rain_train nb4 = Inr nb'"
    by (auto simp: prepare_train_def bind_err_def split: sum.splits)
  note f1 = cell_impute_train_frame[OF c1] and f2 = cell_dropna_train_frame[OF c2]
    and f3 = cell_outliers_train_frame[OF c3] and f4 = cell_normalize_train_frame[OF c4]
    and f5 = cell_rain_train_frame[OF c5]
  have n: "ref \<noteq> next_id (store nb2)" using ref f1 f2 by simp
  have "objs (store nb') ref = objs (store nb4) ref" using f5 f4 f3 n by simp
  also have "\<dots> = objs (store nb3) ref" using f4 f3 n by simp
  also have "\<dots> = objs (store nb2) ref" using f3 n by simp
  also have "\<dots> = objs (store nb1) ref" using f2 f1 ref by simp
  also have "\<dots> = objs (store nb) ref" using f1 ref by simp
  finally show ?thesis .
qed

subsection \<open>The preparation returns on well-formed frames\<close>

lemma np_mean_nonempty: "xs \<noteq> [] \<Longrightarrow> np_mean xs = Some (column_mean xs)"
  by (simp add: np_mean_def column_mean_def)

lemma prepare_train_total:
  assumes cols: "''DC'' \<in> set (columns (objs (store nb) (df_train nb)))"
      "''FFMC'' \<in> set (columns (objs (store nb) (df_train nb)))"
      "''rain'' \<in> set (columns (objs (store nb) (df_train nb)))"
    and obs: "observed (dc_values (rows (objs (store nb) (df_train nb)))) \<noteq> []"
    and left: "cleaned_rows (train_imputation_mean (objs (store nb) (df_train nb)))
        (columns (objs (store nb) (df_train nb))) (rows (objs (store nb) (df_train nb))) \<noteq> []"
    and dist: "distinct (index (objs (store nb) (df_train nb)))"
  shows "\<exists>nb'. prepare_train fm nb = Inr nb'"
proof -
  define tr where "tr = objs (store nb) (df_train nb)"
  from cell_impute_train_total[OF cols(1) obs] obtain nb1 where
    c1: "cell_impute_train nb = Inr nb1" by blast
  from cell_impute_train_Inr[OF c1] obtain m where
    m: "np_mean (observed (dc_values (rows tr))) = Some m"
    and nb1: "nb1 = nb\<lparr>store := mutate (df_train nb)
                 (tr\<lparr>rows := map (update_dc (impute_value m)) (rows tr)\<rparr>) (store nb),
               imp := \<lparr>statistics = Some (Some m)\<rparr>\<rparr>"
    unfolding tr_def by blast
  have mm: "m = train_imputation_mean tr"
    using m np_mean_nonempty[OF obs] by (simp add: train_imputation_mean_def tr_def)
  obtain nb2 where c2: "cell_dropna_train nb1 = Inr nb2" by (simp add: cell_dropna_train_def)
  have t2: "objs (store nb2) (df_train nb2) =
      tr\<lparr>rows := filter (\<lambda>r. \<not> has_nan (columns tr) r) (map (update_dc (impute_value m)) (rows tr))\<rparr>"
    using c2 unfolding cell_dropna_train_eq by (auto simp: nb1 mutate_def)
  have d2: "distinct (index (objs (store nb2) (df_train nb2)))"
    unfolding t2 using dist distinct_index_cleaning[of "rows tr"]
    by (simp add: index_def tr_def)
  have "''FFMC'' \<in> set (columns (objs (store nb2) (df_train nb2)))"
    unfolding t2 using cols(2) by (simp add: tr_def)
  from cell_outliers_train_total[OF this] obtain nb3 where
    c3: "cell_outliers_train nb2 = Inr nb3" by blast
  from cell_outliers_train_Inr[OF c3] d2 have
    t3: "rows (objs (store nb3) (df_train nb3)) = cleaned_rows m (columns tr) (rows tr)"
      "columns (objs (store nb3) (df_train nb3)) = columns tr"
    unfolding t2 by (simp_all add: cleaned_rows_def)
  have "''DC'' \<in> set (columns (objs (store nb3) (df_train nb3)))"
    "rows (objs (store nb3) (df_train nb3)) \<noteq> []"
    using cols(1) left by (simp_all add: t3 mm tr_def)
  from cell_normalize_train_total[OF this] obtain nb4 where
    c4: "cell_normalize_train fm nb3 = Inr nb4" by blast
  from cell_normalize_train_Inr[OF c4] have
    "columns (objs (store nb4) (df_train nb4)) = columns tr"
    using t3(2) by auto
  then have "''rain'' \<in> set (columns (objs (store nb4) (df_train nb4)))"
    using cols(3) by (simp add: tr_def)
  from cell_rain_train_total[OF this] obtain nb5 where
    c5: "cell_rain_train nb4 = Inr nb5" by blast
  have "prepare_train fm nb = Inr nb5"
    by (simp add: prepare_train_def bind_err_def c1 c2 c3 c4 c5)
  then show ?thesis by blast
qed

lemma prepare_test_total:
  assumes fitted: "imp nb = \<lparr>statistics = Some (Some m)\<rparr>"
      "normalizer nb = \<lparr>params = Some (mean, scale)\<rparr>"
    and cols: "''DC'' \<in> set (columns (objs (store nb) (df_test nb)))"
      "''FFMC'' \<in> set (columns (objs (store nb) (df_test nb)))"
      "''rain'' \<in> set (columns (objs (store nb) (df_test nb)))"
    and left: "cleaned_rows m (columns (objs (store nb) (df_test nb)))
        (rows (objs (store nb) (df_test nb))) \<noteq> []"
    and dist: "distinct (index (objs (store nb) (df_test nb)))"
  shows "\<exists>nb2. prepare_test nb = Inr nb2"
proof -
  define a where "a = df_test nb"
  define te where "te = objs (store nb) a"
  define X where "X = dc_values (rows te)"
  have rows_ne: "rows te \<noteq> []"
    using left by (auto simp: cleaned_rows_def te_def a_def)
  then have ne: "X \<noteq> []" by (simp add: X_def dc_values_def)
  have s1: "getitem te ''DC'' = Inr X" using cols(1) by (simp add: getitem_dc X_def te_def a_def)
  have s2: "imp_transform (imp nb) X = Inr (map (\<lambda>x. [impute_value m x]) X)"
    unfolding fitted by (rule imp_transform_fitted[OF ne])
  define df1 where "df1 = te\<lparr>rows := map (update_dc (impute_value m)) (rows te)\<rparr>"
  have s3: "setitem ''DC'' (ravel (map (\<lambda>x. [impute_value m x]) X)) te = Inr df1"
    using setitem_dc[of te "impute_value m"] cols(1)
    by (simp add: ravel_singletons X_def df1_def te_def a_def)
  define h1 where "h1 = dropna a (mutate a df1 (store nb))"
  define T2 where "T2 = te\<lparr>rows := filter (\<lambda>r. \<not> has_nan (columns te) r)
        (map (update_dc (impute_value m)) (rows te))\<rparr>"
  have o1: "objs h1 a = T2" by (simp add: h1_def dropna_def mutate_def df1_def T2_def)
  have d2: "distinct (index T2)"
    using dist distinct_index_cleaning[of "rows te"] by (simp add: index_def T2_def te_def a_def)
  define out where "out = drop_labels
       (map fst (filter (\<lambda>r. float_gt (snd r ''FFMC'') 120) (rows T2))) T2"
  have "''FFMC'' \<in> set (columns (objs h1 a))"
    unfolding o1 using cols(2) by (simp add: T2_def te_def a_def)
  from outlier_removal_eq[OF this, of 120]
  have s4: "outlier_removal a 120 h1 = Inr (alloc out h1)" by (simp add: o1 out_def)
  have rout: "rows out = cleaned_rows m (columns te) (rows te)"
    unfolding out_def drop_labels_filter[OF d2] by (simp add: T2_def cleaned_rows_def)
  have cout: "columns out = columns te" by (simp add: out_def drop_labels_def T2_def)
  define X' where "X' = dc_values (rows out)"
  have ne': "X' \<noteq> []" using left by (simp add: X'_def rout dc_values_def te_def a_def)
  have s5: "getitem out ''DC'' = Inr X'"
    using cols(1) by (simp add: getitem_dc cout X'_def te_def a_def)
  have s6: "scaler_transform (normalizer nb) X' = Inr (map (\<lambda>x. [standardize mean scale x]) X')"
    unfolding fitted by (rule scaler_transform_fitted[OF ne'])
  define df2 where "df2 = out\<lparr>rows := map (update_dc (standardize mean scale)) (rows out)\<rparr>"
  have s7: "setitem ''DC'' (ravel (map (\<lambda>x. [standardize mean scale x]) X')) out = Inr df2"
    using setitem_dc[of out "standardize mean scale"] cols(1)
    by (simp add: ravel_singletons X'_def df2_def cout te_def a_def)
  define h2 where "h2 = mutate (next_id h1) df2 (snd (alloc out h1))"
  have "''rain'' \<in> set (columns (objs h2 (next_id h1)))"
    using cols(3) by (simp add: h2_def mutate_def df2_def cout te_def a_def)
  from add_did_it_rain_eq[OF this] obtain h3 where
    s8: "add_did_it_rain (next_id h1) h2 = Inr (next_id h1, h3)" by blast
  have al: "alloc out h1 = (next_id h1, snd (alloc out h1))" by (simp add: alloc_def)
  have o2: "objs (snd (alloc out h1)) (next_id h1) = out" by (simp add: alloc_def)
  have "prepare_test nb = Inr (nb\<lparr>store := h3, df_test := next_id h1\<rparr>)"
    unfolding prepare_test_def Let_def a_def[symmetric] te_def[symmetric] s1 bind_err_def
      sum.case s2 s3 h1_def[symmetric] s4
    apply (subst al)
    unfolding prod.case o2 s5 sum.case s6 s7 h2_def[symmetric] s8
    by simp
  then show ?thesis by blast
qed

section \<open>No leakage from the test set\<close>

lemma np_mean_SomeD: "np_mean xs = Some m \<Longrightarrow> xs \<noteq> [] \<and> m = column_mean xs"
  by (auto simp: np_mean_def column_mean_def split: if_splits)

lemma scaler_fit_Inr_nonempty: "scaler_fit fm sc X = Inr sc' \<Longrightarrow> X \<noteq> []"
  by (auto simp: scaler_fit_def split: if_splits)

lemma prepare_train_fitted:
  assumes run: "prepare_train fm nb = Inr nb1"
    and dist: "distinct (index (objs (store nb) (df_train nb)))"
  shows "imp nb1 =
      \<lparr>statistics = Some (Some (train_imputation_mean (objs (store nb) (df_train nb))))\<rparr>
    \<and> normalizer nb1 =
      \<lparr>params = Some (Some (fst (fm (train_dc_values (objs (store nb) (df_train nb))))),
         Some (handle_zeros_in_scale
                 (snd (fm (train_dc_values (objs (store nb) (df_train nb)))))))\<rparr>"
proof -
  define tr where "tr = objs (store nb) (df_train nb)"
  from prepare_train_Inr[OF run dist] obtain m where
    m: "np_mean (observed (dc_values (rows tr))) = Some m"
    and i: "imp nb1 = \<lparr>statistics = Some (Some m)\<rparr>"
    and f: "scaler_fit fm StandardScaler (dc_values (cleaned_rows m (columns tr) (rows tr))) =
        Inr (normalizer nb1)"
    and dc: "''DC'' \<in> set (columns tr)"
    unfolding tr_def by blast
  have mm: "m = train_imputation_mean tr"
    using np_mean_SomeD[OF m] by (simp add: train_imputation_mean_def)
  have "observed (dc_values (cleaned_rows m (columns tr) (rows tr))) \<noteq> []"
    by (rule cleaned_rows_observed[OF dc scaler_fit_Inr_nonempty[OF f]])
  from scaler_fit_observed[OF this] f
  have "normalizer nb1 =
      \<lparr>params = Some (Some (fst (fm (train_dc_values tr))),
         Some (handle_zeros_in_scale (snd (fm (train_dc_values tr)))))\<rparr>"
    by (simp add: train_dc_values_def mm)
  with i mm show ?thesis by (simp add: tr_def)
qed

lemma notebook_runs:
  assumes cols: "''DC'' \<in> set (columns (objs (store nb) (df_train nb)))"
      "''FFMC'' \<in> set (columns (objs (store nb) (df_train nb)))"
      "''rain'' \<in> set (columns (objs (store nb) (df_train nb)))"
    and obs: "observed (dc_values (rows (objs (store nb) (df_train nb)))) \<noteq> []"
    and left: "cleaned_rows (train_imputation_mean (objs (store nb) (df_train nb)))
        (columns (objs (store nb) (df_train nb))) (rows (objs (store nb) (df_train nb))) \<noteq> []"
    and dist: "distinct (index (objs (store nb) (df_train nb)))"
    and test_frame: "df_test nb \<noteq> df_train nb" "df_test nb < next_id (store nb)"
    and test_cols: "''DC'' \<in> set (columns (objs (store nb) (df_test nb)))"
      "''FFMC'' \<in> set (columns (objs (store nb) (df_test nb)))"
      "''rain'' \<in> set (columns (objs (store nb) (df_test nb)))"
    and test_left: "cleaned_rows (train_imputation_mean (objs (store nb) (df_train nb)))
        (columns (objs (store nb) (df_test nb))) (rows (objs (store nb) (df_test nb))) \<noteq> []"
    and test_dist: "distinct (index (objs (store nb) (df_test nb)))"
  shows "\<exists>nb1 nb2. prepare_train fm nb = Inr nb1 \<and> prepare_test nb1 = Inr nb2"
proof -
  from prepare_train_total[OF cols obs left dist] obtain nb1 where
    train: "prepare_train fm nb = Inr nb1" by blast
  note f = prepare_train_fitted[OF train dist]
  have dt: "df_test nb1 = df_test nb" using prepare_train_Inr[OF train dist] by blast
  have te: "objs (store nb1) (df_test nb1) = objs (store nb) (df_test nb)"
    unfolding dt by (rule prepare_train_frame[OF train test_frame])
  from prepare_test_total[OF f[THEN conjunct1] f[THEN conjunct2], unfolded te,
      OF test_cols test_left test_dist]
  obtain nb2 where "prepare_test nb1 = Inr nb2" by blast
  with train show ?thesis by blast
qed

text \<open>
  C1. Run the training cells and then the test cell on two notebooks that have the same
  training frame and any test frames. Both end with the same imputer and the same scaler:
  the imputer holds the mean of the DC values present in the training frame, the scaler
  the mean and the scale that the library computes for the DC values of the cleaned
  training frame, both functions of the training frame alone. The test cell fits nothing: every row it leaves of the test
  frame is that row of the test frame, its DC imputed and standardized with these values.
\<close>

theorem no_test_leakage:
  assumes train: "prepare_train fm nb = Inr nb1" and test: "prepare_test nb1 = Inr nb2"
    and train': "prepare_train fm nb' = Inr nb1'" and test': "prepare_test nb1' = Inr nb2'"
    and same_train: "train_frame nb' = train_frame nb"
    and dist: "distinct (index (train_frame nb))"
    and tf: "df_test nb \<noteq> df_train nb" "df_test nb < next_id (store nb)"
      "distinct (index (test_frame nb))"
  shows "imp nb2' = imp nb2 \<and> normalizer nb2' = normalizer nb2
    \<and> imp nb2 =
      \<lparr>statistics = Some (Some (train_imputation_mean (train_frame nb)))\<rparr>
    \<and> normalizer nb2 =
      \<lparr>params = Some (Some (fst (fm (train_dc_values (train_frame nb)))),
         Some (handle_zeros_in_scale
                 (snd (fm (train_dc_values (train_frame nb))))))\<rparr>
    \<and> rows (test_frame nb2) =
      map with_did_it_rain
        (map (update_dc (standardize
                (Some (fst (fm (train_dc_values (train_frame nb)))))
                (Some (handle_zeros_in_scale
                   (snd (fm (train_dc_values (train_frame nb))))))))
           (cleaned_rows (train_imputation_mean (train_frame nb))
              (columns (test_frame nb)) (rows (test_frame nb))))"
proof -
  note same_train = same_train[unfolded train_frame_def]
    and dist = dist[unfolded train_frame_def]
    and test_frame = tf[unfolded test_frame_def]
  note f = prepare_train_fitted[OF train dist]
  have dist': "distinct (index (objs (store nb') (df_train nb')))"
    using dist by (simp add: same_train)
  note f' = prepare_train_fitted[OF train' dist', unfolded same_train]
  note k = prepare_test_Inr[OF test] and k' = prepare_test_Inr[OF test']
  have dt: "df_test nb1 = df_test nb" using prepare_train_Inr[OF train dist] by blast
  have te: "objs (store nb1) (df_test nb1) = objs (store nb) (df_test nb)"
    unfolding dt by (rule prepare_train_frame[OF train test_frame(1,2)])
  have d1: "distinct (index (objs (store nb1) (df_test nb1)))"
    using test_frame(3) by (simp add: te)
  note r = prepare_test_rows[OF test f[THEN conjunct1] f[THEN conjunct2] d1, unfolded te]
  have w: "(\<lambda>r. (fst r, (snd r)(''did_it_rain'' := (if snd r ''rain'' = Some 0 then Some 0 else Some 1)))) =
      with_did_it_rain"
    by (rule ext) (simp add: with_did_it_rain_def)
  show ?thesis
    using f f' k k' r unfolding w train_frame_def test_frame_def by simp
qed

lemma six_rows_statistics:
  "train_imputation_mean six_rows = 220"
  "train_dc_values six_rows = [100, 220, 100, 400]"
proof -
  show m: "train_imputation_mean six_rows = 220"
    by (simp add: train_imputation_mean_def column_mean_def dc_values_def six_rows_def mk_row_def)
  show "train_dc_values six_rows = [100, 220, 100, 400]"
    unfolding train_dc_values_def m
    by (simp add: cleaned_rows_def dc_values_def six_rows_def mk_row_def update_dc_def
        impute_value_def has_nan_def float_gt_def)
qed

lemma demo_notebook_runs:
  assumes "test = small_test \<or> test = other_test"
  shows "\<exists>nb1 nb2. prepare_train exact_moments (demo_notebook test) = Inr nb1 \<and> prepare_test nb1 = Inr nb2"
proof -
  have tr: "objs (store (demo_notebook test)) (df_train (demo_notebook test)) = six_rows"
    and te: "objs (store (demo_notebook test)) (df_test (demo_notebook test)) = test"
    by (simp_all add: demo_notebook_def)
  show ?thesis
  proof (rule notebook_runs[where nb="demo_notebook test" and fm=exact_moments,
        unfolded tr te six_rows_statistics])
    show "cleaned_rows 220 (columns six_rows) (rows six_rows) \<noteq> []"
      by (simp add: cleaned_rows_def six_rows_def mk_row_def update_dc_def
        impute_value_def has_nan_def float_gt_def)
    show "cleaned_rows 220 (columns test) (rows test) \<noteq> []"
      using assms
      by (auto simp: cleaned_rows_def small_test_def other_test_def mk_row_def update_dc_def
        impute_value_def has_nan_def float_gt_def)
    show "distinct (index test)"
      using assms by (auto simp: index_def small_test_def other_test_def)
  qed (use assms in \<open>auto simp: six_rows_def demo_notebook_def small_test_def other_test_def
        dc_values_def mk_row_def index_def\<close>)
qed

theorem no_test_leakage_witness:
  "map_sum id imp (bind_err (prepare_train exact_moments (demo_notebook small_test)) prepare_test) =
     Inr \<lparr>statistics = Some (Some 220)\<rparr>
   \<and> map_sum id imp (bind_err (prepare_train exact_moments (demo_notebook other_test)) prepare_test) =
     Inr \<lparr>statistics = Some (Some 220)\<rparr>
   \<and> map_sum id normalizer (bind_err (prepare_train exact_moments (demo_notebook small_test)) prepare_test) =
     Inr \<lparr>params = Some (Some 205, Some (sqrt 15075))\<rparr>
   \<and> map_sum id normalizer (bind_err (prepare_train exact_moments (demo_notebook other_test)) prepare_test) =
     Inr \<lparr>params = Some (Some 205, Some (sqrt 15075))\<rparr>
   \<and> map_sum id (dc_values \<circ> rows \<circ> test_frame)
        (bind_err (prepare_train exact_moments (demo_notebook small_test)) prepare_test) =
     Inr [Some (15 / sqrt 15075)]"
proof -
  from demo_notebook_runs[of small_test] obtain nb1 nb2 where
    a: "prepare_train exact_moments (demo_notebook small_test) = Inr nb1" "prepare_test nb1 = Inr nb2"
    by blast
  from demo_notebook_runs[of other_test] obtain nb1' nb2' where
    b: "prepare_train exact_moments (demo_notebook other_test) = Inr nb1'" "prepare_test nb1' = Inr nb2'"
    by blast
  have tr: "train_frame (demo_notebook small_test) = six_rows"
    "train_frame (demo_notebook other_test) = six_rows"
    and te: "test_frame (demo_notebook small_test) = small_test"
    by (simp_all add: demo_notebook_def train_frame_def test_frame_def)
  have st: "fst (exact_moments [100, 220, 100, 400]) = 205"
    "snd (exact_moments [100, 220, 100, 400]) = sqrt 15075"
    by (simp_all add: exact_moments_def column_mean_def column_std_def)
  have hz: "handle_zeros_in_scale (sqrt 15075) = sqrt 15075"
    by (simp add: handle_zeros_in_scale_def)
  have cl: "dc_values (map with_did_it_rain
        (map (update_dc (standardize (Some 205) (Some (sqrt 15075))))
           (cleaned_rows 220 (columns small_test) (rows small_test)))) = [Some (15 / sqrt 15075)]"
    by (simp add: cleaned_rows_def small_test_def mk_row_def update_dc_def with_did_it_rain_def
        impute_value_def has_nan_def float_gt_def dc_values_def standardize_def float_div_def
        float_sub_def)
  have "(0::nat) \<noteq> 1" and "(1::nat) < 2" by simp_all
  from no_test_leakage[OF a b, unfolded tr te six_rows_statistics st hz]
  have "imp nb2' = imp nb2 \<and> normalizer nb2' = normalizer nb2
    \<and> imp nb2 = \<lparr>statistics = Some (Some 220)\<rparr>
    \<and> normalizer nb2 = \<lparr>params = Some (Some 205, Some (sqrt 15075))\<rparr>
    \<and> rows (test_frame nb2) =
      map with_did_it_rain
        (map (update_dc (standardize (Some 205) (Some (sqrt 15075))))
           (cleaned_rows 220 (columns small_test) (rows small_test)))"
    by (simp add: demo_notebook_def six_rows_def small_test_def index_def)
  then show ?thesis
    using cl by (simp add: a b bind_err_def)
qed

section \<open>Normalization\<close>





lemma six_rows_dc: "observed (dc_values (rows six_rows)) = [100, 200, 300, 100, 400]"
  by (simp add: dc_values_def six_rows_def mk_row_def)



section \<open>Imputation\<close>

lemma imp_fit_nonempty:
  "X \<noteq> [] \<Longrightarrow> imp_fit Imputer X = Inr \<lparr>statistics = Some (np_mean (observed X))\<rparr>"
  by (simp add: imp_fit_def Imputer_def)

lemma cell_impute_train_all_missing:
  assumes dc: "''DC'' \<in> set (columns (train_frame nb))"
    and ne: "rows (train_frame nb) \<noteq> []"
    and none: "observed (dc_values (rows (train_frame nb))) = []"
  shows "imp_transform \<lparr>statistics = Some None\<rparr> (dc_values (rows (train_frame nb))) =
      Inr (map (\<lambda>x. []) (dc_values (rows (train_frame nb))))
    \<and> cell_impute_train nb = Inl ValueError"
proof -
  define tr where "tr = objs (store nb) (df_train nb)"
  define X where "X = dc_values (rows tr)"
  have g: "getitem tr ''DC'' = Inr X"
    using dc by (simp add: getitem_dc X_def tr_def train_frame_def)
  have Xne: "X \<noteq> []" using ne by (simp add: X_def tr_def train_frame_def dc_values_def)
  have m: "np_mean (observed X) = None"
    using none by (simp add: np_mean_def X_def tr_def train_frame_def)
  have t: "imp_transform \<lparr>statistics = Some None\<rparr> X = Inr (map (\<lambda>x. []) X)"
    using Xne by (simp add: imp_transform_def)
  have s: "setitem ''DC'' [] tr = Inl ValueError"
    using ne by (simp add: setitem_def tr_def train_frame_def)
  have "cell_impute_train nb = Inl ValueError"
    using g imp_fit_nonempty[OF Xne] m t s
    by (simp add: cell_impute_train_def bind_err_def tr_def[symmetric] ravel_empties)
  with t show ?thesis by (simp add: X_def tr_def train_frame_def)
qed

lemma cell_impute_train_fitted:
  assumes dc: "''DC'' \<in> set (columns (train_frame nb))"
    and obs: "observed (dc_values (rows (train_frame nb))) \<noteq> []"
  shows "\<exists>nb1. cell_impute_train nb = Inr nb1
    \<and> imp nb1 = \<lparr>statistics = Some (Some (column_mean (observed (dc_values (rows (train_frame nb))))))\<rparr>
    \<and> rows (train_frame nb1) =
        map (update_dc (impute_value (column_mean (observed (dc_values (rows (train_frame nb)))))))
          (rows (train_frame nb))"
proof -
  from cell_impute_train_total[OF dc[unfolded train_frame_def] obs[unfolded train_frame_def]]
  obtain nb1 where c: "cell_impute_train nb = Inr nb1" by blast
  from cell_impute_train_Inr[OF c] obtain m where
    m: "np_mean (observed (dc_values (rows (train_frame nb)))) = Some m"
    and nb1: "nb1 = nb\<lparr>store := mutate (df_train nb)
                 ((objs (store nb) (df_train nb))
                    \<lparr>rows := map (update_dc (impute_value m)) (rows (objs (store nb) (df_train nb)))\<rparr>)
                 (store nb),
               imp := \<lparr>statistics = Some (Some m)\<rparr>\<rparr>"
    unfolding train_frame_def by blast
  have mm: "m = column_mean (observed (dc_values (rows (train_frame nb))))"
    using np_mean_SomeD[OF m] by simp
  have "imp nb1 = \<lparr>statistics = Some (Some m)\<rparr>"
    "rows (train_frame nb1) = map (update_dc (impute_value m)) (rows (train_frame nb))"
    by (simp_all add: nb1 train_frame_def mutate_def)
  with c show ?thesis unfolding mm by blast
qed

text \<open>
  C5, amended. On a training frame with a DC column and at least one row, the fit of the
  imputer returns and stores the mean of the DC values that are present, NaN when there
  is none. When a value is present, the cell returns and writes that mean where DC is
  missing. When the column is entirely missing, the fit and the transform still return
  (the transform returns an array without columns); the cell fails only where it assigns
  that array to the DC column, with a ValueError.
\<close>

theorem imputation_fit:
  assumes "''DC'' \<in> set (columns (train_frame nb))"
    and "rows (train_frame nb) \<noteq> []"
  shows "imp_fit Imputer (dc_values (rows (train_frame nb))) =
      Inr \<lparr>statistics = Some (np_mean (observed (dc_values (rows (train_frame nb)))))\<rparr>
    \<and> (observed (dc_values (rows (train_frame nb))) \<noteq> [] \<longrightarrow>
         (\<exists>nb1. cell_impute_train nb = Inr nb1
           \<and> imp nb1 =
               \<lparr>statistics = Some (Some (column_mean (observed (dc_values (rows (train_frame nb))))))\<rparr>
           \<and> rows (train_frame nb1) =
               map (update_dc (impute_value
                      (column_mean (observed (dc_values (rows (train_frame nb)))))))
                 (rows (train_frame nb))))
    \<and> (observed (dc_values (rows (train_frame nb))) = [] \<longrightarrow>
         imp_transform \<lparr>statistics = Some None\<rparr> (dc_values (rows (train_frame nb))) =
           Inr (map (\<lambda>x. []) (dc_values (rows (train_frame nb))))
         \<and> cell_impute_train nb = Inl ValueError)"
proof -
  have "dc_values (rows (train_frame nb)) \<noteq> []"
    using assms(2) by (simp add: dc_values_def)
  from imp_fit_nonempty[OF this] cell_impute_train_fitted[OF assms(1)]
    cell_impute_train_all_missing[OF assms]
  show ?thesis by blast
qed

theorem imputation_fit_witness:
  "map_sum id imp (cell_impute_train (notebook_of six_rows)) =
     Inr \<lparr>statistics = Some (Some 220)\<rparr>
   \<and> map_sum id (dc_values \<circ> rows \<circ> train_frame) (cell_impute_train (notebook_of six_rows)) =
     Inr [Some 100, Some 200, Some 220, Some 300, Some 100, Some 400]"
proof -
  have tr: "train_frame (notebook_of six_rows) = six_rows"
    by (simp add: train_frame_def notebook_of_def)
  have c: "''DC'' \<in> set (columns (train_frame (notebook_of six_rows)))"
    "rows (train_frame (notebook_of six_rows)) \<noteq> []"
    unfolding tr by (simp_all add: six_rows_def)
  have st: "column_mean [100, 200, 300, 100, 400] = 220"
    by (simp add: column_mean_def)
  from imputation_fit[OF c, unfolded tr six_rows_dc st]
  obtain nb1 where n: "cell_impute_train (notebook_of six_rows) = Inr nb1"
    "imp nb1 = \<lparr>statistics = Some (Some 220)\<rparr>"
    "rows (train_frame nb1) = map (update_dc (impute_value 220)) (rows six_rows)"
    by auto
  have "dc_values (map (update_dc (impute_value 220)) (rows six_rows)) =
      [Some 100, Some 200, Some 220, Some 300, Some 100, Some 400]"
    by (simp add: dc_values_def update_dc_def impute_value_def six_rows_def mk_row_def)
  with n show ?thesis by simp
qed

text \<open>
  On a DC column that is entirely missing, neither the fit nor the transform of the imputer
  fails; the exception of the cell is the ValueError of the column assignment.
\<close>

theorem imputation_all_missing_counterexample:
  "imp_fit Imputer (dc_values (rows missing_dc)) = Inr \<lparr>statistics = Some None\<rparr>
   \<and> imp_transform \<lparr>statistics = Some None\<rparr> (dc_values (rows missing_dc)) = Inr [[], []]
   \<and> cell_impute_train (notebook_of missing_dc) = Inl ValueError"
proof -
  have tr: "train_frame (notebook_of missing_dc) = missing_dc"
    by (simp add: train_frame_def notebook_of_def)
  have d: "dc_values (rows missing_dc) = [None, None]"
    by (simp add: dc_values_def missing_dc_def mk_row_def)
  have c: "''DC'' \<in> set (columns (train_frame (notebook_of missing_dc)))"
    "rows (train_frame (notebook_of missing_dc)) \<noteq> []"
    "observed (dc_values (rows (train_frame (notebook_of missing_dc)))) = []"
    unfolding tr d by (simp_all add: missing_dc_def)
  from cell_impute_train_all_missing[OF c, unfolded tr d]
  show ?thesis
    by (simp add: d imp_fit_def Imputer_def np_mean_def)
qed

section \<open>Which frames a step changes\<close>

lemma sorted_months: "sort [''mar'', ''aug''] = [''aug'', ''mar'']"
  by code_simp

lemma get_dummies_example:
  "map_sum id (columns \<circ> deref)
     (get_dummies id (Some ''1'') (Some ''0'') ''month'' 0 months_store) =
     Inr [''X'', ''month_aug'', ''month_mar'']
   \<and> map_sum id (map (\<lambda>r. map (snd r) [''X'', ''month_aug'', ''month_mar'']) \<circ> rows \<circ> deref)
     (get_dummies id (Some ''1'') (Some ''0'') ''month'' 0 months_store) =
     Inr [[Some ''7'', Some ''0'', Some ''1''],
          [Some ''8'', Some ''1'', Some ''0''],
          [Some ''1'', Some ''0'', Some ''0''],
          [Some ''2'', Some ''0'', Some ''1'']]
   \<and> map_sum id fst (get_dummies id (Some ''1'') (Some ''0'') ''month'' 0 months_store) = Inr 1"
  by (simp add: get_dummies_def months_store_def months_def alloc_def deref_def
      List.map_filter_def sorted_months)

text \<open>
  C8, amended. No step changes a frame other than the one it is given. The encoding step
  \<open>get_dummies\<close> and \<open>outlier_removal\<close> return a new frame and leave every existing frame,
  the caller's included, as it was. The other steps return no new frame: \<open>drop_duplicates\<close>,
  the column drop and \<open>dropna\<close>, called with \<^verbatim>\<open>inplace=True\<close>, the imputation and the
  normalization, which assign to the DC column, and \<open>add_did_it_rain\<close> allocate nothing and
  change no frame but the caller's, which holds their result; \<open>add_did_it_rain\<close> returns the
  reference it was given.
\<close>

theorem preprocessing_steps_frame:
  assumes "dframe < next_id h"
  shows "(next_id (drop_duplicates dframe h) = next_id h
        \<and> (\<forall>ref. ref \<noteq> dframe \<longrightarrow> objs (drop_duplicates dframe h) ref = objs h ref))
    \<and> (\<forall>h'. drop_column c dframe h = Inr h' \<longrightarrow>
          next_id h' = next_id h
        \<and> (\<forall>ref. ref \<noteq> dframe \<longrightarrow> objs h' ref = objs h ref))
    \<and> (\<forall>ref' h'. get_dummies category one zero c dframe h = Inr (ref', h') \<longrightarrow>
          ref' = next_id h \<and> objs h' dframe = objs h dframe
        \<and> (\<forall>ref. ref < next_id h \<longrightarrow> objs h' ref = objs h ref))
    \<and> (next_id (dropna dframe h) = next_id h
        \<and> (\<forall>ref. ref \<noteq> dframe \<longrightarrow> objs (dropna dframe h) ref = objs h ref))
    \<and> (\<forall>nb nb1. store nb = h \<and> df_train nb = dframe \<and> cell_impute_train nb = Inr nb1 \<longrightarrow>
          df_train nb1 = dframe \<and> next_id (store nb1) = next_id h
        \<and> (\<forall>ref. ref \<noteq> dframe \<longrightarrow> objs (store nb1) ref = objs h ref))
    \<and> (\<forall>ref' h'. outlier_removal dframe threshold h = Inr (ref', h') \<longrightarrow>
          ref' = next_id h \<and> objs h' dframe = objs h dframe
        \<and> (\<forall>ref. ref < next_id h \<longrightarrow> objs h' ref = objs h ref))
    \<and> (\<forall>nb nb1. store nb = h \<and> df_train nb = dframe \<and> cell_normalize_train fm nb = Inr nb1 \<longrightarrow>
          df_train nb1 = dframe \<and> next_id (store nb1) = next_id h
        \<and> (\<forall>ref. ref \<noteq> dframe \<longrightarrow> objs (store nb1) ref = objs h ref))
    \<and> (\<forall>ref' h'. add_did_it_rain dframe h = Inr (ref', h') \<longrightarrow>
          ref' = dframe \<and> next_id h' = next_id h
        \<and> (\<forall>ref. ref \<noteq> dframe \<longrightarrow> objs h' ref = objs h ref))"
proof -
  have dd: "next_id (drop_duplicates dframe h) = next_id h
        \<and> (\<forall>ref. ref \<noteq> dframe \<longrightarrow> objs (drop_duplicates dframe h) ref = objs h ref)"
    by (simp add: drop_duplicates_def mutate_def)
  have dc: "\<forall>h'. drop_column c dframe h = Inr h' \<longrightarrow>
          next_id h' = next_id h
        \<and> (\<forall>ref. ref \<noteq> dframe \<longrightarrow> objs h' ref = objs h ref)"
    by (auto simp: drop_column_def mutate_def split: if_splits)
  have gd: "\<forall>ref' h'. get_dummies category one zero c dframe h = Inr (ref', h') \<longrightarrow>
          ref' = next_id h \<and> objs h' dframe = objs h dframe
        \<and> (\<forall>ref. ref < next_id h \<longrightarrow> objs h' ref = objs h ref)"
    using assms by (auto simp: get_dummies_def Let_def alloc_def split: if_splits)
  have dn: "next_id (dropna dframe h) = next_id h
        \<and> (\<forall>ref. ref \<noteq> dframe \<longrightarrow> objs (dropna dframe h) ref = objs h ref)"
    by (simp add: dropna_def mutate_def)
  have im: "\<forall>nb nb1. store nb = h \<and> df_train nb = dframe \<and> cell_impute_train nb = Inr nb1 \<longrightarrow>
          df_train nb1 = dframe \<and> next_id (store nb1) = next_id h
        \<and> (\<forall>ref. ref \<noteq> dframe \<longrightarrow> objs (store nb1) ref = objs h ref)"
    using cell_impute_train_frame by blast
  have orm: "\<forall>ref' h'. outlier_removal dframe threshold h = Inr (ref', h') \<longrightarrow>
          ref' = next_id h \<and> objs h' dframe = objs h dframe
        \<and> (\<forall>ref. ref < next_id h \<longrightarrow> objs h' ref = objs h ref)"
    using assms
    by (auto simp: outlier_removal_def bind_err_def Let_def alloc_def split: sum.splits)
  have nm: "\<forall>nb nb1. store nb = h \<and> df_train nb = dframe \<and> cell_normalize_train fm nb = Inr nb1 \<longrightarrow>
          df_train nb1 = dframe \<and> next_id (store nb1) = next_id h
        \<and> (\<forall>ref. ref \<noteq> dframe \<longrightarrow> objs (store nb1) ref = objs h ref)"
    using cell_normalize_train_frame by blast
  have ar: "\<forall>ref' h'. add_did_it_rain dframe h = Inr (ref', h') \<longrightarrow>
          ref' = dframe \<and> next_id h' = next_id h
        \<and> (\<forall>ref. ref \<noteq> dframe \<longrightarrow> objs h' ref = objs h ref)"
    by (auto simp: add_did_it_rain_def bind_err_def setitem_def mutate_def
        split: sum.splits if_splits)
  show ?thesis
    by (rule conjI[OF dd conjI[OF dc conjI[OF gd conjI[OF dn conjI[OF im
          conjI[OF orm conjI[OF nm ar]]]]]]])
qed

theorem preprocessing_steps_frame_witness:
  "next_id (drop_duplicates 0 six_rows_store) = 1
   \<and> map_sum id fst (outlier_removal 0 120 six_rows_store) = Inr 1
   \<and> map_sum id (\<lambda>res. objs (snd res) 0) (outlier_removal 0 120 six_rows_store) = Inr six_rows"
proof -
  have a: "(0::nat) < next_id six_rows_store" by (simp add: six_rows_store_def)
  have n: "next_id six_rows_store = 1" by (simp add: six_rows_store_def)
  have o: "objs six_rows_store 0 = six_rows" by (simp add: six_rows_store_def)
  have c: "''FFMC'' \<in> set (columns (objs six_rows_store 0))"
    by (simp add: o six_rows_def)
  obtain h2 where h2: "outlier_removal 0 120 six_rows_store = Inr (1, h2)"
    unfolding outlier_removal_eq[OF c] alloc_def n by simp
  note t = preprocessing_steps_frame[OF a, where threshold=120]
  have t1: "next_id (drop_duplicates 0 six_rows_store) = next_id six_rows_store"
    by (rule t[THEN conjunct1, THEN conjunct1])
  have "outlier_removal 0 120 six_rows_store = Inr (1, h2) \<longrightarrow>
      1 = next_id six_rows_store \<and> objs h2 0 = objs six_rows_store 0
      \<and> (\<forall>ref<next_id six_rows_store. objs h2 ref = objs six_rows_store ref)"
    using t[THEN conjunct2, THEN conjunct2, THEN conjunct2, THEN conjunct2, THEN conjunct2,
        THEN conjunct1, THEN spec, THEN spec] .
  then have t2: "objs h2 0 = objs six_rows_store 0" using h2 by simp
  show ?thesis using t1 t2 by (simp add: h2 o n)
qed

text \<open>
  The caller's frame is changed: \<open>drop_duplicates\<close> leaves five of the six rows behind the
  same reference, and after \<open>add_did_it_rain\<close> the same reference has a fourth column.
\<close>

theorem inplace_mutation_counterexample:
  "length (rows (objs six_rows_store 0)) = 6
   \<and> length (rows (objs (drop_duplicates 0 six_rows_store) 0)) = 5
   \<and> columns (objs six_rows_store 0) = [''FFMC'', ''DC'', ''rain'']
   \<and> map_sum id (columns \<circ> deref) (add_did_it_rain 0 six_rows_store) =
        Inr [''FFMC'', ''DC'', ''rain'', ''did_it_rain'']
   \<and> map_sum id fst (add_did_it_rain 0 six_rows_store) = Inr 0"
proof -
  have o: "objs six_rows_store 0 = six_rows" by (simp add: six_rows_store_def)
  have c: "''rain'' \<in> set (columns (objs six_rows_store 0))"
    by (simp add: o six_rows_def)
  have a: "length (rows six_rows) = 6" "columns six_rows = [''FFMC'', ''DC'', ''rain'']"
    by (simp_all add: six_rows_def)
  have d: "length (rows (deduplicated six_rows)) = 5"
    by (simp add: six_rows_def deduplicated_def row_values_def mk_row_def)
  have dd: "objs (drop_duplicates 0 six_rows_store) 0 = deduplicated six_rows"
    by (simp add: drop_duplicates_def mutate_def o)
  show ?thesis
    unfolding add_did_it_rain_eq[OF c] dd o
    by (simp add: a d deref_def mutate_def)
qed

end
